theory Spec2Isabelle
  imports Complex_Main
begin

chapter \<open>The model\<close>

section \<open>Numbers and optional values\<close>

text \<open>
  The game is written in TypeScript: every number is a JavaScript number.  The model reads
  them as real numbers (no rounding error, no NaN, no infinities); where the source divides,
  the divisor's zero case is written out.  A property that may be \<^verbatim>\<open>undefined\<close> is an
  option.  \<^verbatim>\<open>v || d\<close> on such a property yields \<open>d\<close> when \<open>v\<close> is undefined or \<open>0\<close>,
  and a bare test \<^verbatim>\<open>if (v)\<close> fails in the same two cases.
\<close>

definition orDefault :: "real option \<Rightarrow> real \<Rightarrow> real" where
  "orDefault v d = (case v of None \<Rightarrow> d | Some r \<Rightarrow> if r = 0 then d else r)"

definition truthy :: "real option \<Rightarrow> bool" where
  "truthy v = (case v of None \<Rightarrow> False | Some r \<Rightarrow> r \<noteq> 0)"

text \<open>\<^verbatim>\<open>Math.round\<close> rounds to the nearest integer, halves upwards.\<close>

definition mathRound :: "real \<Rightarrow> real" where
  "mathRound r = of_int \<lfloor>r + 1 / 2\<rfloor>"

definition mathFloor :: "real \<Rightarrow> real" where
  "mathFloor r = of_int \<lfloor>r\<rfloor>"

definition mathCeil :: "real \<Rightarrow> real" where
  "mathCeil r = of_int \<lceil>r\<rceil>"

section \<open>Geometry (utils.ts, systems/wrapSystem.ts)\<close>

record Vector2D =
  x :: real
  y :: real

record Dims =
  width :: real
  height :: real

text \<open>
  \<^verbatim>\<open>GameObject\<close>: anything with a position and a size.  The field \<^verbatim>\<open>size\<close> is called
  \<open>esize\<close> here, \<^verbatim>\<open>id\<close> is called \<open>ident\<close>, a monster's \<^verbatim>\<open>type\<close> and
  \<^verbatim>\<open>level\<close> are \<open>mtype\<close> and \<open>mlevel\<close>.
\<close>

record GameObject =
  position :: Vector2D
  esize :: Dims

definition WORLD_WIDTH :: real where "WORLD_WIDTH = 2400"
definition WORLD_HEIGHT :: real where "WORLD_HEIGHT = 1800"

definition checkCollision :: "'a GameObject_scheme \<Rightarrow> 'b GameObject_scheme \<Rightarrow> bool" where
  "checkCollision a b \<longleftrightarrow>
     x (position a) < x (position b) + width (esize b) \<and>
     x (position a) + width (esize a) > x (position b) \<and>
     y (position a) < y (position b) + height (esize b) \<and>
     y (position a) + height (esize a) > y (position b)"

definition handleWrapAround :: "'a GameObject_scheme \<Rightarrow> Vector2D" where
  "handleWrapAround entity =
     (let newPosition = position entity;
          w = width (esize entity);
          h = height (esize entity);
          newPosition =
            (if x newPosition > WORLD_WIDTH then newPosition\<lparr>x := - w\<rparr>
             else if x newPosition + w < 0 then newPosition\<lparr>x := WORLD_WIDTH\<rparr>
             else newPosition);
          newPosition =
            (if y newPosition > WORLD_HEIGHT then newPosition\<lparr>y := - h\<rparr>
             else if y newPosition + h < 0 then newPosition\<lparr>y := WORLD_HEIGHT\<rparr>
             else newPosition)
      in newPosition)"

text \<open>
  \<^verbatim>\<open>getSlidingMove\<close>.  Each \<^verbatim>\<open>for\<close> loop stops at the first obstacle that collides and
  reverts the axis, so it is an existence test over the list.  \<^verbatim>\<open>colliderX\<close> holds the
  moved x and the entity's own y; \<^verbatim>\<open>colliderY\<close> holds the (possibly reverted) x and the
  moved y.
\<close>

definition getSlidingMove ::
  "'a GameObject_scheme \<Rightarrow> Vector2D \<Rightarrow> real \<Rightarrow> 'b GameObject_scheme list \<Rightarrow> Vector2D" where
  "getSlidingMove entity moveVector speed obstacles =
     (let newPos = (position entity)\<lparr>x := x (position entity) + x moveVector * speed\<rparr>;
          colliderX = \<lparr>position = newPos, esize = esize entity\<rparr>;
          newPos = (if list_ex (checkCollision colliderX) obstacles
                    then newPos\<lparr>x := x (position entity)\<rparr> else newPos);
          tempPosY = y (position entity) + y moveVector * speed;
          colliderY = \<lparr>position = \<lparr>x = x newPos, y = tempPosY\<rparr>, esize = esize entity\<rparr>;
          tempPosY = (if list_ex (checkCollision colliderY) obstacles
                      then y (position entity) else tempPosY)
      in newPos\<lparr>y := tempPosY\<rparr>)"

section \<open>Weapons (types.ts, constants.ts)\<close>

text \<open>
  A weapon.  The properties the code guards with \<^verbatim>\<open>||\<close> or \<^verbatim>\<open>??\<close> may be undefined.
  The colour is kept as its 24-bit number, the name as its English text.
\<close>

datatype WeaponCategory = shotgun | smg | rifle | launcher | special

record Weapon =
  name :: string
  category :: WeaponCategory
  damage :: real
  fireRate :: real
  bulletSpeed :: real
  color :: real
  bulletCount :: "real option"
  piercing :: "real option"
  critChance :: "real option"
  critDamage :: "real option"
  quality :: real
  durability :: "real option"
  maxDurability :: "real option"
  clipSize :: "real option"
  ammoInClip :: "real option"
  reloadTime :: "real option"

section \<open>Entities (types.ts, as the code uses them)\<close>

text \<open>
  Obstacles and explosive barrels are rectangles with health; the game keeps them in one
  list (\<^verbatim>\<open>allObstacles\<close>) for movement, so they share one record.
\<close>

record Living = GameObject +
  ident :: string
  health :: real
  maxHealth :: real

type_synonym Obstacle = Living
type_synonym ExplosiveBarrel = Living

record Creature = Living +
  invincibleUntil :: "real option"
  speed :: real

datatype MonsterType =
  normal | elite | shooter | shotgun_shooter | healer | summoner | minion | boss
  | wisp | bloater | lich_guard

datatype BossStateType = hesitate | barrage | charging | dashing | throwing

record BossAIState =
  stype :: BossStateType
  lastActionTime :: real
  lastDialogueTime :: "real option"
  dashTarget :: "Vector2D option"
  dashEndTime :: "real option"
  barrageAngle :: "real option"
  lastSpecialAttackTime :: "real option"
  lastMinionSpawnTime :: "real option"

record Monster = Creature +
  mtype :: MonsterType
  diesAt :: "real option"
  phase :: "real option"
  aiState :: "BossAIState option"
  xpValue :: real
  mlevel :: "real option"
  empoweredLevel :: "real option"

text \<open>An ally: a creature that leaves at \<^verbatim>\<open>disappearsAt\<close> (its weapon and AI profile left out).\<close>

record Ally = Creature +
  disappearsAt :: real

record Orbitals =
  ocount :: real
  odamage :: real
  ospeed :: real
  oradius :: real
  oangle :: real

datatype Stat =
  MaxHealth | MaxShield | Speed | GemMagnetRadius | ThornsDamage | BaseDamage
  | DamageMultiplier | BulletSpeed | CritChance | CritDamage | FireRate

record Player = Creature +
  name :: string
  shield :: real
  maxShield :: real
  shieldAbsorption :: real
  baseDamage :: real
  damageMultiplier :: real
  thornsDamage :: real
  gemMagnetRadius :: real
  level :: real
  xp :: real
  xpToNextLevel :: real
  orbitals :: "Orbitals option"
  otherStats :: "Stat \<Rightarrow> real option"

record Bullet = GameObject +
  velocity :: Vector2D
  damage :: real
  piercingLeft :: int
  createdAt :: real

datatype DamageSource = FromMonster MonsterType | FromEvent

record Explosion =
  eposition :: Vector2D
  exsize :: Dims
  ecreatedAt :: real
  edamage :: real

record LeaderboardEntry =
  lname :: string
  lscore :: real
  lwave :: int

text \<open>
  The frame state: the fields of \<^verbatim>\<open>GameState\<close> and the frame's local drafts of them that
  the modelled code reads or writes.  \<open>hasWaveTheme\<close> says whether
  \<^verbatim>\<open>currentWaveTheme\<close> is set; \<open>damageNumbers\<close> keeps the amounts shown.
\<close>

record GameState =
  player :: Player
  allies :: "Ally list"
  monsters :: "Monster list"
  bullets :: "Bullet list"
  obstacles :: "Obstacle list"
  explosiveBarrels :: "ExplosiveBarrel list"
  explosions :: "Explosion list"
  damageNumbers :: "real list"
  score :: real
  screenShake :: real
  screenShakeEnabled :: bool
  wave :: int
  monstersToKillForNextWave :: int
  monstersKilledThisWave :: int
  isWaitingForBossClear :: bool
  isBossWave :: bool
  isGameOver :: bool
  isLevelingUp :: bool
  isPaused :: bool
  hasWaveTheme :: bool
  leaderboard :: "LeaderboardEntry list"
  encounteredMonsters :: "MonsterType set"
  monsterIntro :: "(MonsterType \<times> real) option"

definition PLAYER_SIZE :: real where "PLAYER_SIZE = 20"
definition BOSS_SIZE :: real where "BOSS_SIZE = 80"
definition MINION_SIZE :: real where "MINION_SIZE = 12"
definition BULLET_SIZE :: real where "BULLET_SIZE = 8"
definition EXPLOSIVE_BARREL_SIZE :: real where "EXPLOSIVE_BARREL_SIZE = 30"
definition EXPLOSION_DURATION :: real where "EXPLOSION_DURATION = 400"
definition DEATH_ANIMATION_DURATION :: real where "DEATH_ANIMATION_DURATION = 1500"
definition INVINCIBILITY_DURATION :: real where "INVINCIBILITY_DURATION = 3000"
definition MONSTER_INTRO_LIFESPAN :: real where "MONSTER_INTRO_LIFESPAN = 8000"
definition BULLET_LIFESPAN :: real where "BULLET_LIFESPAN = 3000"

text \<open>The player that \<^verbatim>\<open>getInitialState\<close> builds (the generated name left empty).\<close>

definition initialPlayer :: Player where
  "initialPlayer =
     \<lparr>position = \<lparr>x = WORLD_WIDTH / 2 - PLAYER_SIZE / 2, y = WORLD_HEIGHT / 2 - PLAYER_SIZE / 2\<rparr>,
      esize = \<lparr>width = PLAYER_SIZE, height = PLAYER_SIZE\<rparr>,
      ident = ''player'', health = 100, maxHealth = 100,
      invincibleUntil = Some 0, speed = 4,
      name = [], shield = 50, maxShield = 50, shieldAbsorption = 3 / 4,
      baseDamage = 0, damageMultiplier = 1, thornsDamage = 0, gemMagnetRadius = 60,
      level = 1, xp = 0, xpToNextLevel = 100, orbitals = None, otherStats = (\<lambda>_. None)\<rparr>"

definition initialState :: GameState where
  "initialState =
     \<lparr>player = initialPlayer, allies = [], monsters = [], bullets = [], obstacles = [],
      explosiveBarrels = [], explosions = [], damageNumbers = [], score = 0,
      screenShake = 0, screenShakeEnabled = True, wave = 1, monstersToKillForNextWave = 10,
      monstersKilledThisWave = 0, isWaitingForBossClear = False, isBossWave = False,
      isGameOver = False, isLevelingUp = False, isPaused = False, hasWaveTheme = True,
      leaderboard = [], encounteredMonsters = {}, monsterIntro = None\<rparr>"

section \<open>Player damage (\<^verbatim>\<open>_takeDamage\<close> in hooks/useGameLoop.ts)\<close>

definition damageToShield :: "Player \<Rightarrow> real \<Rightarrow> real" where
  "damageToShield p finalAmount = min (shield p) finalAmount"

definition damageAbsorbedByShield :: "Player \<Rightarrow> real \<Rightarrow> real" where
  "damageAbsorbedByShield p finalAmount =
     damageToShield p finalAmount * orDefault (Some (shieldAbsorption p)) (3 / 4)"

definition remainingDamage :: "Player \<Rightarrow> real \<Rightarrow> real" where
  "remainingDamage p finalAmount = finalAmount - damageAbsorbedByShield p finalAmount"

text \<open>
  The new leaderboard of a lost game: the entry appended, a stable sort by descending
  score, the first ten kept.  Writing it to local storage is outside the model.
\<close>

definition newLeaderboard :: "GameState \<Rightarrow> LeaderboardEntry list" where
  "newLeaderboard st =
     take 10 (sort_key (\<lambda>e. - lscore e)
       (leaderboard st @ [\<lparr>lname = name (player st), lscore = score st, lwave = wave st\<rparr>]))"

text \<open>The end of the game when the hit leaves no health.\<close>

definition endGameIfDead :: "GameState \<Rightarrow> GameState" where
  "endGameIfDead st =
     (if health (player st) \<le> 0
      then st\<lparr>isGameOver := True, leaderboard := newLeaderboard st\<rparr> else st)"

text \<open>The first hit by a monster type opens that type's introduction.\<close>

definition noteEncounter :: "real \<Rightarrow> DamageSource option \<Rightarrow> GameState \<Rightarrow> GameState" where
  "noteEncounter now sourceType st =
     (case sourceType of
        Some (FromMonster t) \<Rightarrow>
          if t \<notin> encounteredMonsters st
          then st\<lparr>monsterIntro := Some (t, now + MONSTER_INTRO_LIFESPAN),
                  encounteredMonsters := insert t (encounteredMonsters st)\<rparr>
          else st
      | _ \<Rightarrow> st)"

definition takeDamage ::
  "real \<Rightarrow> real \<Rightarrow> real \<Rightarrow> DamageSource option \<Rightarrow> GameState \<Rightarrow> GameState" where
  "takeDamage now playerDamageTaken amount sourceType st =
     (if isGameOver st \<or>
         (truthy (invincibleUntil (player st)) \<and> now < the (invincibleUntil (player st)))
      then st
      else
        let finalAmount = mathCeil (amount * playerDamageTaken) in
        if finalAmount \<le> 0 then st
        else
          let p = player st;
              rem = remainingDamage p finalAmount;
              p' = p\<lparr>invincibleUntil := Some (now + INVINCIBILITY_DURATION),
                     shield := shield p - damageToShield p finalAmount,
                     health := (if rem > 0 then max 0 (health p - rem) else health p)\<rparr>
          in noteEncounter now sourceType
               (endGameIfDead
                  (st\<lparr>player := p',
                      damageNumbers := damageNumbers st @ [finalAmount],
                      screenShake := (if screenShakeEnabled st
                                      then min 15 (screenShake st + 5) else screenShake st)\<rparr>)))"



section \<open>Upgrade effects (\<^verbatim>\<open>handleLevelUpSelect\<close> in App.tsx)\<close>

datatype Op = OpAdd | OpMultiply

datatype WeaponMod = ModPiercing | ModBulletCount

datatype UpgradeEffect =
    STAT_MOD Stat Op real
  | WEAPON_MOD WeaponMod real
  | HEAL real
  | ADD_SHIELD real
  | ORBITAL_SHIELD real real real real

text \<open>
  \<^verbatim>\<open>(p as any)[stat]\<close>: the stats the player object declares are fields; the others
  (\<^verbatim>\<open>bulletSpeed\<close>, \<^verbatim>\<open>critChance\<close>, \<^verbatim>\<open>critDamage\<close>, \<^verbatim>\<open>fireRate\<close>) are properties
  the assignment creates.
\<close>

definition getStat :: "Player \<Rightarrow> Stat \<Rightarrow> real option" where
  "getStat p s =
     (case s of
        MaxHealth \<Rightarrow> Some (maxHealth p)
      | MaxShield \<Rightarrow> Some (maxShield p)
      | Speed \<Rightarrow> Some (speed p)
      | GemMagnetRadius \<Rightarrow> Some (gemMagnetRadius p)
      | ThornsDamage \<Rightarrow> Some (thornsDamage p)
      | BaseDamage \<Rightarrow> Some (baseDamage p)
      | DamageMultiplier \<Rightarrow> Some (damageMultiplier p)
      | _ \<Rightarrow> otherStats p s)"

definition setStat :: "Stat \<Rightarrow> real \<Rightarrow> Player \<Rightarrow> Player" where
  "setStat s v p =
     (case s of
        MaxHealth \<Rightarrow> p\<lparr>maxHealth := v\<rparr>
      | MaxShield \<Rightarrow> p\<lparr>maxShield := v\<rparr>
      | Speed \<Rightarrow> p\<lparr>speed := v\<rparr>
      | GemMagnetRadius \<Rightarrow> p\<lparr>gemMagnetRadius := v\<rparr>
      | ThornsDamage \<Rightarrow> p\<lparr>thornsDamage := v\<rparr>
      | BaseDamage \<Rightarrow> p\<lparr>baseDamage := v\<rparr>
      | DamageMultiplier \<Rightarrow> p\<lparr>damageMultiplier := v\<rparr>
      | _ \<Rightarrow> p\<lparr>otherStats := (otherStats p)(s := Some v)\<rparr>)"

definition applyWeaponMod :: "WeaponMod \<Rightarrow> real \<Rightarrow> Weapon \<Rightarrow> Weapon" where
  "applyWeaponMod md v w =
     (case md of
        ModPiercing \<Rightarrow> w\<lparr>piercing := Some (orDefault (piercing w) 1 + v)\<rparr>
      | ModBulletCount \<Rightarrow> w\<lparr>bulletCount := Some (orDefault (bulletCount w) 1 + v)\<rparr>)"

definition applyOrbitalShield :: "real \<Rightarrow> real \<Rightarrow> real \<Rightarrow> real \<Rightarrow> Player \<Rightarrow> Player" where
  "applyOrbitalShield c d s r p =
     (let orb = (case orbitals p of
                   None \<Rightarrow> \<lparr>ocount = 0, odamage = 0, ospeed = 0, oradius = 0, oangle = 0\<rparr>
                 | Some orb \<Rightarrow> orb)
      in p\<lparr>orbitals := Some (orb\<lparr>ocount := ocount orb + c,
                                   odamage := max (odamage orb) d,
                                   ospeed := max (ospeed orb) s,
                                   oradius := max (oradius orb) r\<rparr>)\<rparr>)"

fun applyEffect ::
  "Player \<times> Weapon option list \<Rightarrow> UpgradeEffect \<Rightarrow> Player \<times> Weapon option list" where
  "applyEffect (p, ws) (STAT_MOD stat OpAdd v) =
     (let p1 = setStat stat (orDefault (getStat p stat) 0 + v) p;
          p2 = (if stat = MaxHealth then p1\<lparr>health := health p1 + v\<rparr> else p1);
          p3 = (if stat = MaxShield then p2\<lparr>shield := shield p2 + v\<rparr> else p2)
      in (p3, ws))"
| "applyEffect (p, ws) (STAT_MOD stat OpMultiply v) =
     (setStat stat (orDefault (getStat p stat) 1 * v) p, ws)"
| "applyEffect (p, ws) (WEAPON_MOD md v) = (p, map (map_option (applyWeaponMod md v)) ws)"
| "applyEffect (p, ws) (HEAL amount) =
     (p\<lparr>health := min (maxHealth p) (health p + maxHealth p * (amount / 100))\<rparr>, ws)"
| "applyEffect (p, ws) (ADD_SHIELD amount) =
     (p\<lparr>shield := min (maxShield p) (shield p + amount)\<rparr>, ws)"
| "applyEffect (p, ws) (ORBITAL_SHIELD c d s r) = (applyOrbitalShield c d s r p, ws)"

text \<open>
  The player and the weapons after a chosen upgrade: every effect in order, then the two
  clamps.  The popups, the ally dialogue and the cursed score bonus are outside the model.
\<close>

definition handleLevelUpSelect ::
  "UpgradeEffect list \<Rightarrow> Player \<times> Weapon option list \<Rightarrow> Player \<times> Weapon option list" where
  "handleLevelUpSelect effects pw =
     (let (p, ws) = foldl applyEffect pw effects;
          p = (if health p > maxHealth p then p\<lparr>health := maxHealth p\<rparr> else p);
          p = (if shield p > maxShield p then p\<lparr>shield := maxShield p\<rparr> else p)
      in (p, ws))"

section \<open>Procedural weapons (services/geminiService.ts, data/weaponNames.ts)\<close>

text \<open>
  \<^verbatim>\<open>Math.random()\<close> is an input: \<open>rnd k\<close> is the value of the \<open>k\<close>-th call the
  function makes.
\<close>

type_synonym RandomSource = "nat \<Rightarrow> real"

definition randomInRange :: "real \<Rightarrow> real \<Rightarrow> real \<Rightarrow> real" where
  "randomInRange r lo hi = r * (hi - lo) + lo"

text \<open>\<^verbatim>\<open>parseFloat(v.toFixed(2))\<close>: two decimals, the magnitude rounded half up.\<close>

definition toFixed2 :: "real \<Rightarrow> real" where
  "toFixed2 v =
     (if v < 0 then - (of_int \<lfloor>- v * 100 + 1 / 2\<rfloor> / 100) else of_int \<lfloor>v * 100 + 1 / 2\<rfloor> / 100)"

definition WEAPON_PREFIXES :: "string list" where
  "WEAPON_PREFIXES =
     [''Void-forged'', ''Infernal'', ''Glacial'', ''Thunderclap'', ''Stardust'',
      ''Shadow-fused'', ''Hallowed'', ''Demonsbane'', ''Giga-Pulse'', ''Nanotech'',
      ''Quantum'', ''Galactic'', ''Apocalyptic'', ''Crystalline'', ''Hyper-Kinetic'',
      ''Phase-Shift'']"

definition WEAPON_SUFFIXES :: "string list" where
  "WEAPON_SUFFIXES =
     [''Rifle'', ''Cannon'', ''Blaster'', ''Repeater'', ''Launcher'', ''Annihilator'',
      ''Shredder'', ''Disruptor'', ''Obliterator'', ''Executioner'', ''Vindicator'',
      ''Howitzer'', ''Carbine'', ''Devastator'', ''Reaver'', ''Striker'']"

text \<open>
  \<^verbatim>\<open>arr[Math.floor(r * arr.length)]\<close>: outside the array the read is
  \<^verbatim>\<open>undefined\<close>, and reading \<^verbatim>\<open>.en\<close> of it throws.
\<close>

definition pickRandom :: "'a list \<Rightarrow> real \<Rightarrow> 'a option" where
  "pickRandom arr r =
     (let i = \<lfloor>r * real (length arr)\<rfloor>
      in if 0 \<le> i \<and> i < int (length arr) then Some (arr ! nat i) else None)"

text \<open>One pass of the stat-point loop: the stats after it and the index of the next random value.\<close>

definition applyStatPoint :: "real \<Rightarrow> RandomSource \<Rightarrow> nat \<Rightarrow> Weapon \<Rightarrow> Weapon \<times> nat" where
  "applyStatPoint wv rnd k newStats =
     (let roll = rnd k in
      if roll < 25 / 100 then
        (newStats\<lparr>Weapon.damage :=
           mathRound (Weapon.damage newStats * (105 / 100 + rnd (k + 1) * (1 / 10)) * (1 + wv / 50))\<rparr>,
         k + 2)
      else if roll < 5 / 10 then
        (newStats\<lparr>fireRate := toFixed2 (fireRate newStats * (102 / 100 + rnd (k + 1) * (8 / 100)))\<rparr>,
         k + 2)
      else if roll < 6 / 10 then
        (newStats\<lparr>clipSize :=
           Some (orDefault (clipSize newStats) 10 + mathCeil (randomInRange (rnd (k + 1)) 1 5))\<rparr>,
         k + 2)
      else if roll < 7 / 10 then
        (newStats\<lparr>reloadTime :=
           Some (max 500 (orDefault (reloadTime newStats) 2000 * (95 / 100 - rnd (k + 1) * (5 / 100))))\<rparr>,
         k + 2)
      else if roll < 8 / 10 then
        (newStats\<lparr>critChance := Some (min (75 / 100) (orDefault (critChance newStats) (5 / 100) + 1 / 100))\<rparr>,
         k + 1)
      else if roll < 9 / 10 then
        (newStats\<lparr>critDamage := Some (orDefault (critDamage newStats) (15 / 10) + 5 / 100)\<rparr>, k + 1)
      else if roll < 95 / 100 \<and> wv > 5 then
        (newStats\<lparr>piercing := Some (orDefault (piercing newStats) 1 + 1)\<rparr>, k + 1)
      else if category newStats = shotgun then
        (newStats\<lparr>bulletCount :=
           Some (orDefault (bulletCount newStats) 1 + mathFloor (randomInRange (rnd (k + 1)) 1 2))\<rparr>,
         k + 2)
      else (newStats, k + 1))"

fun applyStatPoints :: "nat \<Rightarrow> real \<Rightarrow> RandomSource \<Rightarrow> nat \<Rightarrow> Weapon \<Rightarrow> Weapon \<times> nat" where
  "applyStatPoints 0 wv rnd k newStats = (newStats, k)"
| "applyStatPoints (Suc n) wv rnd k newStats =
     (case applyStatPoint wv rnd k newStats of (s', k') \<Rightarrow> applyStatPoints n wv rnd k' s')"

definition weaponQuality :: "Weapon \<Rightarrow> real" where
  "weaponQuality newStats =
     mathFloor
       (Weapon.damage newStats * fireRate newStats * orDefault (bulletCount newStats) 1
          * (1 + orDefault (critChance newStats) 0 * orDefault (critDamage newStats) 0)
        + orDefault (piercing newStats) 1 * 20
        + orDefault (Some (bulletSpeed newStats)) 5 * 5
        - orDefault (reloadTime newStats) 2000 / 100)"

text \<open>The failsafe after the loop: damage and fire rate are at least the rounded baseline.\<close>

definition ensureBaseStats :: "Weapon \<Rightarrow> Weapon \<Rightarrow> Weapon" where
  "ensureBaseStats currentWeapon newStats =
     (let newStats = newStats\<lparr>Weapon.damage :=
                       max (Weapon.damage newStats) (mathRound (Weapon.damage currentWeapon * (11 / 10)))\<rparr>
      in newStats\<lparr>fireRate :=
                    max (fireRate newStats) (toFixed2 (fireRate currentWeapon * (101 / 100)))\<rparr>)"

text \<open>The quality score, the durability and the assembly of the final weapon object.\<close>

definition finalWeapon :: "Weapon \<Rightarrow> Weapon \<Rightarrow> string \<Rightarrow> string \<Rightarrow> real \<Rightarrow> Weapon" where
  "finalWeapon currentWeapon newStats prefix suffix colorRoll =
     (let newName = prefix @ '' '' @ suffix;
          newColor = mathFloor (colorRoll * 16777215);
          newStats = newStats\<lparr>quality := max (weaponQuality newStats) (quality currentWeapon + 10)\<rparr>;
          newDurability = max 100 (mathFloor (quality newStats * (25 / 10)))
      in newStats\<lparr>Weapon.name := newName, color := newColor,
                  ammoInClip := clipSize newStats,
                  durability := Some newDurability,
                  maxDurability := Some newDurability,
                  category := special\<rparr>)"

text \<open>
  \<^verbatim>\<open>generateUpgradedWeapon\<close>.  The result is \<open>None\<close> where the source's
  \<^verbatim>\<open>catch\<close> returns \<^verbatim>\<open>null\<close>: a name part read outside its array.
\<close>

definition generateUpgradedWeapon :: "Weapon \<Rightarrow> real \<Rightarrow> RandomSource \<Rightarrow> Weapon option" where
  "generateUpgradedWeapon currentWeapon wv rnd =
     (let statPoints = 5 + \<lfloor>wv / 3\<rfloor>;
          (newStats, k) = applyStatPoints (nat statPoints) wv rnd 0 currentWeapon;
          newStats = ensureBaseStats currentWeapon newStats
      in case (pickRandom WEAPON_PREFIXES (rnd k), pickRandom WEAPON_SUFFIXES (rnd (k + 1))) of
           (Some prefix, Some suffix) \<Rightarrow>
             Some (finalWeapon currentWeapon newStats prefix suffix (rnd (k + 2)))
         | _ \<Rightarrow> None)"

text \<open>The predefined weapon ``Triple Shot'' (data/weapons.ts).\<close>

definition tripleShot :: Weapon where
  "tripleShot =
     \<lparr>Weapon.name = ''Triple Shot'', category = shotgun, Weapon.damage = 12, fireRate = 4,
      bulletSpeed = 6, color = 1357990, bulletCount = Some 3, piercing = Some 1,
      critChance = Some (5 / 100), critDamage = Some (15 / 10), quality = 150,
      durability = Some 100, maxDurability = Some 100, clipSize = Some 12,
      ammoInClip = Some 12, reloadTime = Some 2800\<rparr>"

text \<open>
  The difficulty modifiers (\<^verbatim>\<open>DIFFICULTY_SETTINGS\<close>).  \<^verbatim>\<open>_takeDamage\<close> above reads
  \<^verbatim>\<open>difficultyModifiers.playerDamageTaken\<close> from the enclosing frame; the model passes
  it as an argument.
\<close>

record DifficultyModifiers =
  playerDamageTaken :: real
  monsterHealth :: real
  monsterSpeed :: real
  xpGain :: real
  monsterDamage :: real

section \<open>Boss AI (ai/monsters/bossAI.ts)\<close>

text \<open>
  \<^verbatim>\<open>healthPercent < c\<close> with \<^verbatim>\<open>healthPercent = health / maxHealth\<close>.  For
  \<open>maxHealth = 0\<close> the quotient is an infinity of the sign of \<open>health\<close>, or NaN for
  \<open>0 / 0\<close>; the comparison then holds for negative health only.
\<close>

definition healthPercentBelow :: "Monster \<Rightarrow> real \<Rightarrow> bool" where
  "healthPercentBelow m c =
     (if maxHealth m = 0 then health m < 0 else health m / maxHealth m < c)"

definition freshBossState :: "real \<Rightarrow> BossAIState" where
  "freshBossState now =
     \<lparr>stype = hesitate, lastActionTime = now, lastDialogueTime = None, dashTarget = None,
      dashEndTime = None, barrageAngle = None, lastSpecialAttackTime = None,
      lastMinionSpawnTime = None\<rparr>"

definition bossPhaseTransition :: "real \<Rightarrow> Monster \<times> BossAIState \<Rightarrow> Monster \<times> BossAIState" where
  "bossPhaseTransition now ma =
     (case ma of (updatedMonster, ai) \<Rightarrow>
        let currentPhase = orDefault (phase updatedMonster) 1;
            nextPhase = (if currentPhase = 1 \<and> healthPercentBelow updatedMonster (75 / 100)
                         then 2 else currentPhase);
            nextPhase = (if currentPhase = 2 \<and> healthPercentBelow updatedMonster (4 / 10)
                         then 3 else nextPhase)
        in if nextPhase > currentPhase
           then (updatedMonster\<lparr>phase := Some nextPhase, invincibleUntil := Some (now + 2000)\<rparr>,
                 ai\<lparr>stype := hesitate, lastActionTime := now\<rparr>)
           else (updatedMonster, ai))"

text \<open>The active dash, or the choice of the next attack after the hesitation.\<close>

definition bossDashOrChoose ::
  "real \<Rightarrow> real \<Rightarrow> real \<Rightarrow> Obstacle list \<Rightarrow> Monster \<times> BossAIState \<Rightarrow> Monster \<times> BossAIState" where
  "bossDashOrChoose now actionRoll timeInState allObstacles ma =
     (case ma of (m, ai) \<Rightarrow>
        if stype ai = dashing \<and> dashTarget ai \<noteq> None then
          let dx = x (the (dashTarget ai)) - x (position m);
              dy = y (the (dashTarget ai)) - y (position m);
              dist = sqrt (dx * dx + dy * dy)
          in if dist < 30 \<or> now > orDefault (dashEndTime ai) 0
             then (m, ai\<lparr>stype := hesitate, lastActionTime := now\<rparr>)
             else (m\<lparr>position :=
                       getSlidingMove m \<lparr>x = dx / dist, y = dy / dist\<rparr> (speed m * 3) allObstacles\<rparr>,
                   ai)
        else if stype ai = hesitate \<and> timeInState > 2000 then
          let ai = ai\<lparr>lastActionTime := now\<rparr>
          in if actionRoll < 4 / 10 then (m, ai\<lparr>stype := barrage, barrageAngle := Some 0\<rparr>)
             else if actionRoll < 7 / 10 \<and> (case phase m of None \<Rightarrow> False | Some ph \<Rightarrow> ph \<ge> 2)
             then (m, ai\<lparr>stype := charging\<rparr>)
             else (m, ai\<lparr>stype := throwing\<rparr>)
        else (m, ai))"

text \<open>The \<^verbatim>\<open>switch\<close> on the state; \<open>timeInState\<close> is the value computed before it.\<close>

definition bossAction :: "real \<Rightarrow> real \<Rightarrow> Vector2D \<Rightarrow> BossAIState \<Rightarrow> BossAIState" where
  "bossAction now timeInState playerPosition ai =
     (case stype ai of
        barrage \<Rightarrow>
          if timeInState > 3000 then ai\<lparr>stype := hesitate, lastActionTime := now\<rparr>
          else ai\<lparr>barrageAngle := Some (orDefault (barrageAngle ai) 0 + 15 / 100)\<rparr>
      | charging \<Rightarrow>
          if timeInState > 1500
          then ai\<lparr>stype := dashing, lastActionTime := now,
                  dashTarget := Some playerPosition, dashEndTime := Some (now + 1000)\<rparr>
          else ai
      | throwing \<Rightarrow>
          if timeInState > 2500 then ai\<lparr>stype := hesitate, lastActionTime := now\<rparr>
          else if now - orDefault (lastSpecialAttackTime ai) 0 > 800
          then ai\<lparr>lastSpecialAttackTime := Some now\<rparr>
          else ai
      | _ \<Rightarrow> ai)"

text \<open>
  \<^verbatim>\<open>handleBossAI\<close>: the updated boss.  The two \<^verbatim>\<open>Math.random()\<close> results are inputs.
  The bullets, barrels, minions and dialogue lines the boss emits are outside the model.
\<close>

definition handleBossAI ::
  "Monster \<Rightarrow> Player \<Rightarrow> Obstacle list \<Rightarrow> real \<Rightarrow> real \<Rightarrow> real \<Rightarrow> Monster" where
  "handleBossAI monster pl allObstacles now dialogueRoll actionRoll =
     (let ai0 = (case aiState monster of None \<Rightarrow> freshBossState now | Some a \<Rightarrow> a);
          (m1, ai1) = bossPhaseTransition now (monster, ai0);
          timeInState = now - lastActionTime ai1;
          ai2 = (if now - orDefault (lastDialogueTime ai1) 0 > 10000 \<and> dialogueRoll < 2 / 10
                 then ai1\<lparr>lastDialogueTime := Some now\<rparr> else ai1);
          (m3, ai3) = bossDashOrChoose now actionRoll timeInState allObstacles (m1, ai2);
          ai4 = bossAction now timeInState (position pl) ai3;
          spawnCooldown = 8000 - orDefault (phase m3) 1 * 1000;
          ai5 = (if now - orDefault (lastMinionSpawnTime ai4) 0 > spawnCooldown
                 then ai4\<lparr>lastMinionSpawnTime := Some now\<rparr> else ai4)
      in m3\<lparr>aiState := Some ai5\<rparr>)"

section \<open>Explosive barrels (ai/monsters/explosiveBarrelAI.ts)\<close>

record ExplosionSpec =
  xposition :: Vector2D
  xdamage :: real
  xsize :: real

text \<open>
  \<^verbatim>\<open>barrelsToExplode\<close> is a JavaScript \<^verbatim>\<open>Map\<close> keyed by barrel id: \<^verbatim>\<open>set\<close>
  overwrites the value of a key in place and appends a new key at the end.
\<close>

fun mapSet :: "'k \<Rightarrow> 'v \<Rightarrow> ('k \<times> 'v) list \<Rightarrow> ('k \<times> 'v) list" where
  "mapSet k v [] = [(k, v)]"
| "mapSet k v (kv # kvs) = (if fst kv = k then (k, v) # kvs else kv # mapSet k v kvs)"

definition mapHas :: "'k \<Rightarrow> ('k \<times> 'v) list \<Rightarrow> bool" where
  "mapHas k kvs = list_ex (\<lambda>kv. fst kv = k) kvs"

definition barrelExplosion :: "ExplosiveBarrel \<Rightarrow> ExplosionSpec" where
  "barrelExplosion barrel = \<lparr>xposition = position barrel, xdamage = 100, xsize = 150\<rparr>"

text \<open>Stage 1, for one barrel: depleted health, the player's overlap, a living monster's overlap.\<close>

definition detectTrigger ::
  "Player \<Rightarrow> Monster list \<Rightarrow> (string \<times> ExplosionSpec) list \<Rightarrow> ExplosiveBarrel
     \<Rightarrow> (string \<times> ExplosionSpec) list" where
  "detectTrigger pl mons barrelsToExplode barrel =
     (if health barrel \<le> 0 then
        (if mapHas (ident barrel) barrelsToExplode then barrelsToExplode
         else mapSet (ident barrel) (barrelExplosion barrel) barrelsToExplode)
      else if checkCollision pl barrel
      then mapSet (ident barrel) (barrelExplosion barrel) barrelsToExplode
      else if list_ex (\<lambda>m. \<not> truthy (diesAt m) \<and> checkCollision m barrel) mons
      then mapSet (ident barrel) (barrelExplosion barrel) barrelsToExplode
      else barrelsToExplode)"

record BarrelProcessingResult =
  updatedBarrels :: "ExplosiveBarrel list"
  updatedObstacles :: "Obstacle list"
  updatedMonsters :: "Monster list"
  newExplosions :: "Explosion list"
  newDamageNumbers :: "real list"

definition inBlast :: "ExplosionSpec \<Rightarrow> 'a GameObject_scheme \<Rightarrow> bool" where
  "inBlast ex obj =
     ((x (position obj) + width (esize obj) / 2 - (x (xposition ex) + EXPLOSIVE_BARREL_SIZE / 2))\<^sup>2
        + (y (position obj) + height (esize obj) / 2 - (y (xposition ex) + EXPLOSIVE_BARREL_SIZE / 2))\<^sup>2
      < (xsize ex / 2)\<^sup>2)"

definition explosionCollider :: "ExplosionSpec \<Rightarrow> GameObject" where
  "explosionCollider ex =
     \<lparr>position = \<lparr>x = x (xposition ex) + EXPLOSIVE_BARREL_SIZE / 2 - xsize ex / 2,
                   y = y (xposition ex) + EXPLOSIVE_BARREL_SIZE / 2 - xsize ex / 2\<rparr>,
      esize = \<lparr>width = xsize ex, height = xsize ex\<rparr>\<rparr>"

text \<open>
  Stage 2, for one explosion: the player (through the \<^verbatim>\<open>takeDamage\<close> callback, which
  writes the frame state), the living monsters within the radius, the obstacles that
  overlap the blast's bounding square.  Barrels are not among the things it damages.
\<close>

definition explode ::
  "real \<Rightarrow> real \<Rightarrow> BarrelProcessingResult \<times> GameState \<Rightarrow> ExplosionSpec
     \<Rightarrow> BarrelProcessingResult \<times> GameState" where
  "explode now pdt rs ex =
     (case rs of (res, st) \<Rightarrow>
        (res\<lparr>updatedMonsters :=
                map (\<lambda>m. if truthy (diesAt m) then m
                          else if inBlast ex m then m\<lparr>health := health m - xdamage ex\<rparr> else m)
                    (updatedMonsters res),
              updatedObstacles :=
                map (\<lambda>ob. if checkCollision ob (explosionCollider ex)
                           then ob\<lparr>health := health ob - xdamage ex * 2\<rparr> else ob)
                    (updatedObstacles res),
              newExplosions :=
                newExplosions res @
                  [\<lparr>eposition = xposition ex, exsize = \<lparr>width = xsize ex, height = xsize ex\<rparr>,
                    ecreatedAt = now, edamage = xdamage ex\<rparr>],
              newDamageNumbers :=
                newDamageNumbers res @
                  map (\<lambda>_. xdamage ex)
                      (filter (\<lambda>m. \<not> truthy (diesAt m) \<and> inBlast ex m) (updatedMonsters res))\<rparr>,
         if inBlast ex (player st) then takeDamage now pdt (xdamage ex) (Some FromEvent) st else st))"

definition processExplosiveBarrels ::
  "real \<Rightarrow> real \<Rightarrow> GameState \<Rightarrow> BarrelProcessingResult \<times> GameState" where
  "processExplosiveBarrels now pdt st =
     (let barrelsToExplode =
            foldl (detectTrigger (player st) (monsters st)) [] (explosiveBarrels st);
          (res, st') =
            foldl (explode now pdt)
              (\<lparr>updatedBarrels = explosiveBarrels st, updatedObstacles = obstacles st,
                updatedMonsters = monsters st, newExplosions = [], newDamageNumbers = []\<rparr>, st)
              (map snd barrelsToExplode)
      in (res\<lparr>updatedBarrels :=
                 filter (\<lambda>b. \<not> mapHas (ident b) barrelsToExplode) (explosiveBarrels st)\<rparr>, st'))"

text \<open>The barrel phase of the game loop: the call and the write-back of its result.\<close>

definition barrelPhase :: "real \<Rightarrow> real \<Rightarrow> GameState \<Rightarrow> GameState" where
  "barrelPhase now pdt st =
     (case processExplosiveBarrels now pdt st of (res, st') \<Rightarrow>
        st'\<lparr>explosiveBarrels := updatedBarrels res,
            obstacles := updatedObstacles res,
            monsters := updatedMonsters res,
            explosions := explosions st' @ newExplosions res,
            damageNumbers := damageNumbers st' @ newDamageNumbers res\<rparr>)"

text \<open>The trigger condition of one barrel, as stage 1 tests it.\<close>

definition barrelTriggered :: "Player \<Rightarrow> Monster list \<Rightarrow> ExplosiveBarrel \<Rightarrow> bool" where
  "barrelTriggered pl mons barrel \<longleftrightarrow>
     health barrel \<le> 0 \<or> checkCollision pl barrel
     \<or> list_ex (\<lambda>m. \<not> truthy (diesAt m) \<and> checkCollision m barrel) mons"

section \<open>Player bullets (the bullet loop of \<^verbatim>\<open>gameLoop\<close>)\<close>

text \<open>
  A \<^verbatim>\<open>for\<close> loop that changes the first element that satisfies a test and stops:
  the list after it, and whether an element was found.
\<close>

fun hitFirst :: "('a \<Rightarrow> bool) \<Rightarrow> ('a \<Rightarrow> 'a) \<Rightarrow> 'a list \<Rightarrow> 'a list \<times> bool" where
  "hitFirst P f [] = ([], False)"
| "hitFirst P f (a # as) =
     (if P a then (f a # as, True)
      else (case hitFirst P f as of (as', found) \<Rightarrow> (a # as', found)))"

text \<open>
  One pass of the loop over the player's bullets.  The result says whether the bullet is
  pushed to \<^verbatim>\<open>newBullets\<close>, gives the bullet as the pass leaves it, and the obstacles,
  barrels and monsters after its hits.  \<open>roll\<close> is the \<^verbatim>\<open>Math.random()\<close> of the
  critical-hit test.  Damage numbers, damage zones and the target display are outside the
  model.
\<close>

definition processBullet ::
  "real \<Rightarrow> Weapon \<Rightarrow> real \<Rightarrow> Bullet \<Rightarrow> Obstacle list \<times> ExplosiveBarrel list \<times> Monster list
     \<Rightarrow> bool \<times> Bullet \<times> Obstacle list \<times> ExplosiveBarrel list \<times> Monster list" where
  "processBullet now weaponUsed roll b env =
     (case env of (obs, brls, mons) \<Rightarrow>
        let bullet = b\<lparr>position := \<lparr>x = x (position b) + x (velocity b),
                                     y = y (position b) + y (velocity b)\<rparr>\<rparr>;
            bullet = bullet\<lparr>position := handleWrapAround bullet\<rparr>
        in if now - createdAt bullet > BULLET_LIFESPAN then (False, bullet, obs, brls, mons)
           else
             case hitFirst (checkCollision bullet)
                    (\<lambda>ob. ob\<lparr>health := health ob - Bullet.damage bullet\<rparr>) obs of
               (obs', hitO) \<Rightarrow>
             let bullet = (if hitO then bullet\<lparr>piercingLeft := piercingLeft bullet - 1\<rparr> else bullet)
             in if hitO \<and> piercingLeft bullet \<le> 0 then (False, bullet, obs', brls, mons)
                else
                  case hitFirst (checkCollision bullet)
                         (\<lambda>br. br\<lparr>health := health br - Bullet.damage bullet\<rparr>) brls of
                    (brls', hitB) \<Rightarrow>
                  let bullet = (if hitB then bullet\<lparr>piercingLeft := piercingLeft bullet - 1\<rparr>
                                else bullet);
                      hitSomething = (hitO \<or> hitB)
                  in if hitSomething \<and> piercingLeft bullet \<le> 0
                     then (False, bullet, obs', brls', mons)
                     else
                       let isCrit = (roll < orDefault (critChance weaponUsed) 0);
                           critDamageMultiplier =
                             (if isCrit then orDefault (critDamage weaponUsed) (15 / 10) else 1);
                           finalDamage = Bullet.damage bullet * critDamageMultiplier
                       in case hitFirst (\<lambda>m. \<not> truthy (diesAt m) \<and> checkCollision bullet m)
                                 (\<lambda>m. m\<lparr>health := health m - finalDamage\<rparr>) mons of
                            (mons', hitM) \<Rightarrow>
                          let bullet = (if hitM then bullet\<lparr>piercingLeft := piercingLeft bullet - 1\<rparr>
                                        else bullet);
                              hitSomething = (hitSomething \<or> hitM)
                          in (piercingLeft bullet > 0 \<and> \<not> hitSomething,
                              bullet, obs', brls', mons'))"

text \<open>The whole loop: \<open>rolls i\<close> is the critical-hit roll of the \<open>i\<close>-th bullet.\<close>

fun processBullets ::
  "real \<Rightarrow> Weapon \<Rightarrow> (nat \<Rightarrow> real) \<Rightarrow> nat \<Rightarrow> Bullet list
     \<Rightarrow> Obstacle list \<times> ExplosiveBarrel list \<times> Monster list
     \<Rightarrow> Bullet list \<times> Obstacle list \<times> ExplosiveBarrel list \<times> Monster list" where
  "processBullets now weaponUsed rolls i [] env = ([], env)"
| "processBullets now weaponUsed rolls i (b # bs) env =
     (case processBullet now weaponUsed (rolls i) b env of
        (kept, bullet, env') \<Rightarrow>
          (case processBullets now weaponUsed rolls (Suc i) bs env' of
             (newBullets, env'') \<Rightarrow> ((if kept then bullet # newBullets else newBullets), env'')))"

section \<open>The end of the frame (cleanup, level-up, wave progression in \<^verbatim>\<open>gameLoop\<close>)\<close>

text \<open>
  What the earlier phases of a tick (movement, AI, barrels, bullets, collisions, pickups)
  hand to its end: the time, the frame's draft of the entity lists and of the player, and
  the random results the end of the tick uses (the boss's spawn position, the regenerated
  obstacle field).

  The frame's lists are shallow copies of the previous state's lists.  A write through an
  object the frame has not copied (a bullet's \<^verbatim>\<open>obstacles[i].health -= ...\<close>, a boss's
  \<^verbatim>\<open>aiState\<close>) therefore shows in the previous state's own lists, and the early return
  of a level-up hands those lists back.  \<open>fprevMonsters\<close>, \<open>fprevObstacles\<close> and
  \<open>fprevBarrels\<close> are the previous state's lists as the frame's writes have left them.
\<close>

record Frame =
  fnow :: real
  fdraft :: GameState
  fbossPosition :: Vector2D
  fnewObstacles :: "Obstacle list"
  fnewBarrels :: "ExplosiveBarrel list"
  fprevMonsters :: "Monster list"
  fprevObstacles :: "Obstacle list"
  fprevBarrels :: "ExplosiveBarrel list"

definition newlyKilledMonsters :: "Monster list \<Rightarrow> Monster list" where
  "newlyKilledMonsters mons = filter (\<lambda>m. health m \<le> 0 \<and> \<not> truthy (diesAt m)) mons"

definition markDying :: "real \<Rightarrow> Monster \<Rightarrow> Monster" where
  "markDying now m = (if health m \<le> 0 \<and> \<not> truthy (diesAt m) then m\<lparr>diesAt := Some now\<rparr> else m)"

definition killScore :: "Monster \<Rightarrow> real" where
  "killScore m = mathFloor (orDefault (mlevel m) 1 * 10 * (1 + orDefault (empoweredLevel m) 0 * (1 / 2)))"

text \<open>A minion a dead bloater leaves (its random id and its jitter of up to 20 px left out).\<close>

definition bloaterMinion :: "DifficultyModifiers \<Rightarrow> Monster \<Rightarrow> Monster" where
  "bloaterMinion mods m =
     \<lparr>position = position m, esize = \<lparr>width = MINION_SIZE, height = MINION_SIZE\<rparr>,
      ident = [], health = 20 * monsterHealth mods, maxHealth = 20 * monsterHealth mods,
      invincibleUntil = None, speed = 15 / 10 * monsterSpeed mods,
      mtype = minion, diesAt = None, phase = None, aiState = None, xpValue = 2,
      mlevel = None, empoweredLevel = None\<rparr>"

definition waveHealthBonus :: "int \<Rightarrow> real" where
  "waveHealthBonus w = (if w > 1 then 200 + (of_int w - 2) * 150 else 0)"

definition spawnBoss :: "DifficultyModifiers \<Rightarrow> int \<Rightarrow> Vector2D \<Rightarrow> Monster" where
  "spawnBoss mods w pos =
     \<lparr>position = pos, esize = \<lparr>width = BOSS_SIZE, height = BOSS_SIZE\<rparr>,
      ident = [],
      health = (800 + of_int w * 150 + waveHealthBonus w * 5) * monsterHealth mods,
      maxHealth = (800 + of_int w * 150 + waveHealthBonus w * 5) * monsterHealth mods,
      invincibleUntil = None, speed = (15 / 10 + of_int w * (1 / 10)) * monsterSpeed mods,
      mtype = boss, diesAt = None, phase = Some 1, aiState = None, xpValue = 200,
      mlevel = Some (of_int w), empoweredLevel = None\<rparr>"

text \<open>The post-collision cleanup of the monsters: the dying marked, the bloaters' minions pushed.\<close>

definition cleanedMonsters :: "real \<Rightarrow> DifficultyModifiers \<Rightarrow> Monster list \<Rightarrow> Monster list" where
  "cleanedMonsters now mods mons =
     map (markDying now) mons
       @ concat (map (\<lambda>m. if mtype m = bloater then replicate 3 (bloaterMinion mods m) else [])
                     (newlyKilledMonsters mons))"

text \<open>
  The local \<^verbatim>\<open>monstersKilledThisWave\<close>, and the locals \<^verbatim>\<open>isWaitingForBossClear\<close> and
  \<^verbatim>\<open>isBossWave\<close> after the two tests that start the boss wave.  \<open>st\<close> is the
  \<^verbatim>\<open>state\<close> the loop copied from the previous state: nothing before this point writes
  its wave fields.
\<close>

definition killedThisWave :: "GameState \<Rightarrow> Monster list \<Rightarrow> int" where
  "killedThisWave st killedNow =
     monstersKilledThisWave st + int (length (filter (\<lambda>m. mtype m \<noteq> boss) killedNow))"

definition waitingForBossClear :: "GameState \<Rightarrow> Monster list \<Rightarrow> bool" where
  "waitingForBossClear st killedNow =
     (if \<not> isWaitingForBossClear st \<and> \<not> isBossWave st
         \<and> killedThisWave st killedNow \<ge> monstersToKillForNextWave st
      then True else isWaitingForBossClear st)"

definition bossWaveStarts :: "GameState \<Rightarrow> Monster list \<Rightarrow> Monster list \<Rightarrow> bool" where
  "bossWaveStarts st killedNow mons =
     (waitingForBossClear st killedNow
      \<and> length (filter (\<lambda>m. \<not> truthy (diesAt m) \<and> mtype m \<noteq> boss) mons) = 0)"

definition bossWaveNow :: "GameState \<Rightarrow> Monster list \<Rightarrow> Monster list \<Rightarrow> bool" where
  "bossWaveNow st killedNow mons = (if bossWaveStarts st killedNow mons then True else isBossWave st)"

definition bossKilled :: "Monster list \<Rightarrow> bool" where
  "bossKilled killedNow = list_ex (\<lambda>m. mtype m = boss) killedNow"

text \<open>
  The tick from the post-collision cleanup on.  The level-up branch is the early
  \<^verbatim>\<open>return { ...state, player, isLevelingUp: true, levelUpChoices }\<close>: the previous
  state with the frame's player, its entity lists as the frame's writes have left them.
  Left out: drops, gems and popups, the regular spawn of one monster, allies, chests, the
  camera and the target display.
\<close>

definition finishFrame :: "Frame \<Rightarrow> DifficultyModifiers \<Rightarrow> GameState \<Rightarrow> GameState" where
  "finishFrame fr mods prevState =
     (let now = fnow fr;
          d = fdraft fr;
          st = prevState\<lparr>isGameOver := isGameOver d, leaderboard := leaderboard d,
                         encounteredMonsters := encounteredMonsters d,
                         monsterIntro := monsterIntro d\<rparr>;
          killedNow = newlyKilledMonsters (monsters d);
          mons = cleanedMonsters now mods (monsters d);
          pl = player d
      in if xp pl \<ge> xpToNextLevel pl
         then st\<lparr>player := pl\<lparr>level := level pl + 1, xp := xp pl - xpToNextLevel pl,
                                xpToNextLevel := mathFloor (xpToNextLevel pl * (15 / 10))\<rparr>,
                 monsters := fprevMonsters fr,
                 obstacles := fprevObstacles fr,
                 explosiveBarrels := fprevBarrels fr,
                 isLevelingUp := True\<rparr>
         else
           let starts = bossWaveStarts st killedNow mons;
               mons = (if starts \<and> hasWaveTheme st
                       then mons @ [spawnBoss mods (wave st) (fbossPosition fr)] else mons);
               advance = (bossWaveNow st killedNow (cleanedMonsters now mods (monsters d))
                          \<and> bossKilled killedNow)
           in st\<lparr>player := pl,
                  monsters := filter (\<lambda>m. \<not> truthy (diesAt m)
                                          \<or> now - the (diesAt m) < DEATH_ANIMATION_DURATION) mons,
                  bullets := bullets d,
                  obstacles := (if advance then fnewObstacles fr
                                else filter (\<lambda>ob. health ob > 0) (obstacles d)),
                  explosiveBarrels := (if advance then fnewBarrels fr else explosiveBarrels d),
                  explosions := explosions d,
                  damageNumbers := damageNumbers d,
                  score := score d + sum_list (map killScore killedNow),
                  screenShake := screenShake d,
                  wave := (if advance then wave st + 1 else wave st),
                  monstersKilledThisWave := (if advance then 0 else killedThisWave st killedNow),
                  monstersToKillForNextWave :=
                    (if advance then \<lfloor>of_int (monstersToKillForNextWave st) * (12 / 10) + (5::real)\<rfloor>
                     else monstersToKillForNextWave st),
                  isWaitingForBossClear :=
                    (if starts then False else waitingForBossClear st killedNow),
                  isBossWave := (if advance then False else bossWaveNow st killedNow
                                   (cleanedMonsters now mods (monsters d))),
                  hasWaveTheme := (if advance then True else hasWaveTheme st)\<rparr>)"

definition gameLoop :: "DifficultyModifiers \<Rightarrow> GameState \<Rightarrow> Frame \<Rightarrow> GameState" where
  "gameLoop mods prevState fr =
     (if isPaused prevState \<or> isGameOver prevState \<or> isLevelingUp prevState then prevState
      else finishFrame fr mods prevState)"

text \<open>A sequence of ticks.\<close>

definition runTicks :: "DifficultyModifiers \<Rightarrow> GameState \<Rightarrow> Frame list \<Rightarrow> GameState" where
  "runTicks mods st frs = foldl (gameLoop mods) st frs"

definition normalDifficulty :: DifficultyModifiers where
  "normalDifficulty =
     \<lparr>playerDamageTaken = 1, monsterHealth = 1, monsterSpeed = 1, xpGain = 1, monsterDamage = 1\<rparr>"

section \<open>Example inputs\<close>

text \<open>A wave-1 boss on normal difficulty, hurt to 700 of its 950 health, in its barrage.\<close>

definition hurtBoss :: Monster where
  "hurtBoss = (spawnBoss normalDifficulty 1 \<lparr>x = 500, y = 500\<rparr>)
                \<lparr>health := 700, aiState := Some ((freshBossState 0)\<lparr>stype := barrage\<rparr>)\<rparr>"

text \<open>Two barrels 50 px apart, far from the player; the first has lost its health.\<close>

definition barrelA :: ExplosiveBarrel where
  "barrelA = \<lparr>position = \<lparr>x = 100, y = 100\<rparr>,
              esize = \<lparr>width = EXPLOSIVE_BARREL_SIZE, height = EXPLOSIVE_BARREL_SIZE\<rparr>,
              ident = ''A'', health = 0, maxHealth = 10\<rparr>"

definition barrelB :: ExplosiveBarrel where
  "barrelB = \<lparr>position = \<lparr>x = 150, y = 100\<rparr>,
              esize = \<lparr>width = EXPLOSIVE_BARREL_SIZE, height = EXPLOSIVE_BARREL_SIZE\<rparr>,
              ident = ''B'', health = 10, maxHealth = 10\<rparr>"

definition chainState :: GameState where
  "chainState = initialState\<lparr>explosiveBarrels := [barrelA, barrelB]\<rparr>"

text \<open>A bullet with three hits left, 5 px in front of a monster, and the monster.\<close>

definition pierceBullet :: Bullet where
  "pierceBullet =
     \<lparr>position = \<lparr>x = 100, y = 100\<rparr>, esize = \<lparr>width = BULLET_SIZE, height = BULLET_SIZE\<rparr>,
      velocity = \<lparr>x = 5, y = 0\<rparr>, Bullet.damage = 25, piercingLeft = 3, createdAt = 0\<rparr>"

definition targetMonster :: Monster where
  "targetMonster =
     \<lparr>position = \<lparr>x = 105, y = 100\<rparr>, esize = \<lparr>width = 24, height = 24\<rparr>,
      ident = ''m1'', health = 100, maxHealth = 100, invincibleUntil = None, speed = 12 / 10,
      mtype = normal, diesAt = None, phase = None, aiState = None, xpValue = 10,
      mlevel = Some 1, empoweredLevel = None\<rparr>"


definition frameAfter :: "real \<Rightarrow> Monster list \<Rightarrow> Frame" where
  "frameAfter now mons =
     \<lparr>fnow = now, fdraft = initialState\<lparr>monsters := mons\<rparr>,
      fbossPosition = \<lparr>x = 0, y = 0\<rparr>, fnewObstacles = [], fnewBarrels = [],
      fprevMonsters = [], fprevObstacles = [], fprevBarrels = []\<rparr>"


text \<open>
  The boss right after the call of \<^verbatim>\<open>handleBossAI\<close> at time 5000 that takes it to
  phase 2, and a player bullet of damage 25 that reaches it one millisecond later.
\<close>

definition shieldedBoss :: Monster where
  "shieldedBoss = handleBossAI hurtBoss initialPlayer [] 5000 (1 / 2) (1 / 2)"

definition bossBullet :: Bullet where
  "bossBullet =
     \<lparr>position = \<lparr>x = 495, y = 520\<rparr>, esize = \<lparr>width = BULLET_SIZE, height = BULLET_SIZE\<rparr>,
      velocity = \<lparr>x = 5, y = 0\<rparr>, Bullet.damage = 25, piercingLeft = 1, createdAt = 5000\<rparr>"

chapter \<open>Properties\<close>

lemma checkCollision_same_box:
  "position a = position a' \<Longrightarrow> esize a = esize a' \<Longrightarrow>
     checkCollision a b = checkCollision a' b"
  by (simp add: checkCollision_def)

section \<open>Toroidal wrap\<close>

lemma handleWrapAround_x:
  "x (handleWrapAround e) =
     (if x (position e) > WORLD_WIDTH then - width (esize e)
      else if x (position e) + width (esize e) < 0 then WORLD_WIDTH
      else x (position e))"
  by (simp add: handleWrapAround_def Let_def)

lemma handleWrapAround_y:
  "y (handleWrapAround e) =
     (if y (position e) > WORLD_HEIGHT then - height (esize e)
      else if y (position e) + height (esize e) < 0 then WORLD_HEIGHT
      else y (position e))"
  by (simp add: handleWrapAround_def Let_def)

lemma Vector2D_eqI: "x (a::Vector2D) = x b \<Longrightarrow> y a = y b \<Longrightarrow> a = b"
  by simp

text \<open>
  C8.  Every entity the game builds has a positive width and height (the size constants of
  constants.ts).  For such an entity placed exactly at \<open>x = WORLD_WIDTH + width\<close>, one
  application of the wrap function puts it at \<open>x = - width\<close>, no further; and applying
  the wrap function to its own output changes nothing, wherever the entity started.
\<close>

theorem wrap_right_edge_then_idempotent:
  assumes "0 < width (esize e)" and "0 < height (esize e)"
  shows "(x (position e) = WORLD_WIDTH + width (esize e) \<longrightarrow>
            x (handleWrapAround e) = - width (esize e))
         \<and> handleWrapAround (e\<lparr>position := handleWrapAround e\<rparr>) = handleWrapAround e"
proof
  show "x (position e) = WORLD_WIDTH + width (esize e) \<longrightarrow>
          x (handleWrapAround e) = - width (esize e)"
    using assms(1) by (simp add: handleWrapAround_x)
next
  let ?e' = "e\<lparr>position := handleWrapAround e\<rparr>"
  have wpos: "0 < WORLD_WIDTH" "0 < WORLD_HEIGHT"
    by (simp_all add: WORLD_WIDTH_def WORLD_HEIGHT_def)
  have "x (handleWrapAround ?e') = x (handleWrapAround e)"
    using assms(1) wpos(1) by (simp add: handleWrapAround_x)
  moreover have "y (handleWrapAround ?e') = y (handleWrapAround e)"
    using assms(2) wpos(2) by (simp add: handleWrapAround_y)
  ultimately show "handleWrapAround ?e' = handleWrapAround e"
    by (rule Vector2D_eqI)
qed

theorem wrap_right_edge_then_idempotent_witness:
  "(0::real) < 20 \<and>
   x (handleWrapAround \<lparr>position = \<lparr>x = 2420, y = 100\<rparr>, esize = \<lparr>width = 20, height = 20\<rparr>\<rparr>) = - 20 \<and>
   handleWrapAround (\<lparr>position = \<lparr>x = 2420, y = 100\<rparr>, esize = \<lparr>width = 20, height = 20\<rparr>\<rparr>
      \<lparr>position := handleWrapAround \<lparr>position = \<lparr>x = 2420, y = 100\<rparr>, esize = \<lparr>width = 20, height = 20\<rparr>\<rparr>\<rparr>)
     = \<lparr>x = - 20, y = 100\<rparr>"
  using wrap_right_edge_then_idempotent
          [of "\<lparr>position = \<lparr>x = 2420, y = 100\<rparr>, esize = \<lparr>width = 20, height = 20\<rparr>\<rparr>"]
  by (simp add: handleWrapAround_def WORLD_WIDTH_def WORLD_HEIGHT_def)

section \<open>Sliding movement\<close>

text \<open>
  C10.  An entity that overlaps no obstacle of the list before the move overlaps none of
  them at the position \<^verbatim>\<open>getSlidingMove\<close> returns, for every direction and speed.
\<close>

theorem getSlidingMove_never_enters_obstacle:
  fixes entity :: "'a GameObject_scheme" and obstacles :: "'b GameObject_scheme list"
  assumes "\<forall>obs \<in> set obstacles. \<not> checkCollision entity obs"
  shows "\<forall>obs \<in> set obstacles.
           \<not> checkCollision (entity\<lparr>position := getSlidingMove entity moveVector spd obstacles\<rparr>) obs"
proof -
  let ?px = "x (position entity)" and ?py = "y (position entity)"
  let ?cX = "\<lparr>position = (position entity)\<lparr>x := ?px + x moveVector * spd\<rparr>, esize = esize entity\<rparr>"
  define nx where "nx = (if list_ex (checkCollision ?cX) obstacles then ?px else ?px + x moveVector * spd)"
  let ?cY = "\<lparr>position = \<lparr>x = nx, y = ?py + y moveVector * spd\<rparr>, esize = esize entity\<rparr>"
  define ny where "ny = (if list_ex (checkCollision ?cY) obstacles then ?py else ?py + y moveVector * spd)"
  have res: "getSlidingMove entity moveVector spd obstacles = \<lparr>x = nx, y = ny\<rparr>"
    by (simp add: getSlidingMove_def Let_def nx_def ny_def)
  have afterX: "\<forall>obs \<in> set obstacles.
                  \<not> checkCollision \<lparr>position = \<lparr>x = nx, y = ?py\<rparr>, esize = esize entity\<rparr> obs"
  proof (cases "list_ex (checkCollision ?cX) obstacles")
    case True
    then have "nx = ?px" by (simp add: nx_def)
    then have "checkCollision \<lparr>position = \<lparr>x = nx, y = ?py\<rparr>, esize = esize entity\<rparr> obs
                 = checkCollision entity obs" for obs :: "'b GameObject_scheme"
      by (intro checkCollision_same_box) simp_all
    then show ?thesis using assms by simp
  next
    case False
    then have "nx = ?px + x moveVector * spd" by (simp add: nx_def)
    then have "checkCollision \<lparr>position = \<lparr>x = nx, y = ?py\<rparr>, esize = esize entity\<rparr> obs
                 = checkCollision ?cX obs" for obs :: "'b GameObject_scheme"
      by (intro checkCollision_same_box) simp_all
    then show ?thesis using False by (simp add: list_ex_iff)
  qed
  have afterY: "\<forall>obs \<in> set obstacles.
                  \<not> checkCollision \<lparr>position = \<lparr>x = nx, y = ny\<rparr>, esize = esize entity\<rparr> obs"
  proof (cases "list_ex (checkCollision ?cY) obstacles")
    case True
    then show ?thesis using afterX by (simp add: ny_def)
  next
    case False
    then show ?thesis by (simp add: ny_def list_ex_iff)
  qed
  have "checkCollision (entity\<lparr>position := \<lparr>x = nx, y = ny\<rparr>\<rparr>) obs
          = checkCollision \<lparr>position = \<lparr>x = nx, y = ny\<rparr>, esize = esize entity\<rparr> obs"
    for obs :: "'b GameObject_scheme"
    by (intro checkCollision_same_box) simp_all
  then show ?thesis
    using afterY by (simp add: res)
qed

theorem getSlidingMove_never_enters_obstacle_witness:
  "\<not> checkCollision \<lparr>position = \<lparr>x = 0, y = 0\<rparr>, esize = \<lparr>width = 20, height = 20\<rparr>\<rparr>
        \<lparr>position = \<lparr>x = 30, y = 0\<rparr>, esize = \<lparr>width = 50, height = 50\<rparr>\<rparr>
   \<and> getSlidingMove \<lparr>position = \<lparr>x = 0, y = 0\<rparr>, esize = \<lparr>width = 20, height = 20\<rparr>\<rparr>
        \<lparr>x = 1, y = 0\<rparr> 15 [\<lparr>position = \<lparr>x = 30, y = 0\<rparr>, esize = \<lparr>width = 50, height = 50\<rparr>\<rparr>]
      = \<lparr>x = 0, y = 0\<rparr>
   \<and> \<not> checkCollision
        (\<lparr>position = \<lparr>x = 0, y = 0\<rparr>, esize = \<lparr>width = 20, height = 20\<rparr>\<rparr>
           \<lparr>position := getSlidingMove \<lparr>position = \<lparr>x = 0, y = 0\<rparr>, esize = \<lparr>width = 20, height = 20\<rparr>\<rparr>
              \<lparr>x = 1, y = 0\<rparr> 15 [\<lparr>position = \<lparr>x = 30, y = 0\<rparr>, esize = \<lparr>width = 50, height = 50\<rparr>\<rparr>]\<rparr>)
        \<lparr>position = \<lparr>x = 30, y = 0\<rparr>, esize = \<lparr>width = 50, height = 50\<rparr>\<rparr>"
  using getSlidingMove_never_enters_obstacle
          [of "[\<lparr>position = \<lparr>x = 30, y = 0\<rparr>, esize = \<lparr>width = 50, height = 50\<rparr>\<rparr>]"
              "\<lparr>position = \<lparr>x = 0, y = 0\<rparr>, esize = \<lparr>width = 20, height = 20\<rparr>\<rparr>"
              "\<lparr>x = 1, y = 0\<rparr>" 15]
  by (simp add: getSlidingMove_def checkCollision_def Let_def)


section \<open>Shield absorption\<close>

lemma player_noteEncounter: "player (noteEncounter now src st) = player st"
  by (simp add: noteEncounter_def split: option.split DamageSource.split)

lemma player_endGameIfDead: "player (endGameIfDead st) = player st"
  by (simp add: endGameIfDead_def)

lemma takeDamage_player:
  "player (takeDamage now pdt amount src st) =
     (if isGameOver st \<or>
         (truthy (invincibleUntil (player st)) \<and> now < the (invincibleUntil (player st)))
         \<or> mathCeil (amount * pdt) \<le> 0
      then player st
      else (player st)
             \<lparr>invincibleUntil := Some (now + INVINCIBILITY_DURATION),
              shield := shield (player st)
                          - damageToShield (player st) (mathCeil (amount * pdt)),
              health := (if remainingDamage (player st) (mathCeil (amount * pdt)) > 0
                         then max 0 (health (player st)
                                - remainingDamage (player st) (mathCeil (amount * pdt)))
                         else health (player st))\<rparr>)"
  by (simp add: takeDamage_def Let_def player_noteEncounter player_endGameIfDead)

lemma takeDamage_hit:
  assumes "\<not> isGameOver st"
    and "\<not> (truthy (invincibleUntil (player st)) \<and> now < the (invincibleUntil (player st)))"
    and "0 < mathCeil (amount * pdt)"
  shows "shield (player (takeDamage now pdt amount src st))
           = shield (player st) - damageToShield (player st) (mathCeil (amount * pdt))"
    and "health (player (takeDamage now pdt amount src st))
           = (if remainingDamage (player st) (mathCeil (amount * pdt)) > 0
              then max 0 (health (player st) - remainingDamage (player st) (mathCeil (amount * pdt)))
              else health (player st))"
  using assms by (auto simp: takeDamage_player)

text \<open>
  C2.  A player with shield 50, absorption 0.75 and health 100 who is not invincible, with
  the damage-taken modifier 1, takes one hit of 40: the hit consumes \<open>min 50 40 = 40\<close>
  shield, the shield absorbs \<open>40 * 0.75 = 30\<close>, the remaining 10 go to health; the player
  is left with shield 10 and health 90.
\<close>

theorem shield_absorption_scenario:
  assumes "shield (player st) = 50" and "shieldAbsorption (player st) = 3 / 4"
    and "health (player st) = 100"
    and "\<not> isGameOver st"
    and "\<not> (truthy (invincibleUntil (player st)) \<and> now < the (invincibleUntil (player st)))"
  shows "damageToShield (player st) (mathCeil (40 * 1)) = 40
         \<and> damageAbsorbedByShield (player st) (mathCeil (40 * 1)) = 30
         \<and> remainingDamage (player st) (mathCeil (40 * 1)) = 10
         \<and> shield (player (takeDamage now 1 40 src st)) = 10
         \<and> health (player (takeDamage now 1 40 src st)) = 90"
proof -
  have c: "mathCeil (40 * 1) = 40" by (simp add: mathCeil_def)
  have d: "damageToShield (player st) 40 = 40"
    using assms(1) by (simp add: damageToShield_def)
  have a: "damageAbsorbedByShield (player st) 40 = 30"
    using assms(2) d by (simp add: damageAbsorbedByShield_def orDefault_def)
  have r: "remainingDamage (player st) 40 = 10"
    using a by (simp add: remainingDamage_def)
  have pos: "0 < mathCeil (40 * 1)" using c by simp
  have s: "shield (player (takeDamage now 1 40 src st)) = 10"
    using takeDamage_hit(1)[OF assms(4) assms(5) pos, of src] assms(1) c d by simp
  have h: "health (player (takeDamage now 1 40 src st)) = 90"
    using takeDamage_hit(2)[OF assms(4) assms(5) pos, of src] assms(3) c r by simp
  show ?thesis using c d a r s h by simp
qed

theorem shield_absorption_scenario_witness:
  "shield (player initialState) = 50 \<and> shieldAbsorption (player initialState) = 3 / 4
   \<and> health (player initialState) = 100 \<and> \<not> isGameOver initialState
   \<and> shield (player (takeDamage 1000 1 40 (Some FromEvent) initialState)) = 10
   \<and> health (player (takeDamage 1000 1 40 (Some FromEvent) initialState)) = 90"
  using shield_absorption_scenario [of initialState 1000 "Some FromEvent"]
  by (simp add: initialState_def initialPlayer_def truthy_def)


section \<open>Orbital shield stacking\<close>

text \<open>
  C9, as the code has it.  Applying an \<^verbatim>\<open>ORBITAL_SHIELD\<close> effect to a player who already
  has orbitals adds the effect's count to the existing count, and sets damage, speed and
  radius each to the maximum of the existing value and the effect's value.
\<close>

theorem orbital_shield_stacking:
  assumes "orbitals p = Some orb"
  shows "orbitals (fst (applyEffect (p, ws) (ORBITAL_SHIELD c d s r)))
           = Some (orb\<lparr>ocount := ocount orb + c,
                        odamage := max (odamage orb) d,
                        ospeed := max (ospeed orb) s,
                        oradius := max (oradius orb) r\<rparr>)"
  using assms by (simp add: applyOrbitalShield_def)

theorem orbital_shield_stacking_witness:
  "orbitals (initialPlayer\<lparr>orbitals := Some \<lparr>ocount = 1, odamage = 15, ospeed = 2, oradius = 70, oangle = 0\<rparr>\<rparr>)
     = Some \<lparr>ocount = 1, odamage = 15, ospeed = 2, oradius = 70, oangle = 0\<rparr>
   \<and> orbitals (fst (applyEffect
        (initialPlayer\<lparr>orbitals := Some \<lparr>ocount = 1, odamage = 15, ospeed = 2, oradius = 70, oangle = 0\<rparr>\<rparr>, [])
        (ORBITAL_SHIELD 2 10 3 90)))
     = Some \<lparr>ocount = 3, odamage = 15, ospeed = 3, oradius = 90, oangle = 0\<rparr>"
  using orbital_shield_stacking
          [of "initialPlayer\<lparr>orbitals := Some \<lparr>ocount = 1, odamage = 15, ospeed = 2, oradius = 70, oangle = 0\<rparr>\<rparr>"
              "\<lparr>ocount = 1, odamage = 15, ospeed = 2, oradius = 70, oangle = 0\<rparr>" "[]" 2 10 3 90]
  by simp

text \<open>
  The claim as the spec words it (count too is the maximum, never the sum) fails: the
  ``Kinetic Orb'' upgrade taken a second time gives count \<open>1 + 1 = 2\<close>, where the maximum
  of the existing and the new count is 1.
\<close>

theorem orbital_count_is_summed_counterexample:
  "ocount (the (orbitals (fst (applyEffect
      (initialPlayer\<lparr>orbitals := Some \<lparr>ocount = 1, odamage = 15, ospeed = 2, oradius = 70, oangle = 0\<rparr>\<rparr>, [])
      (ORBITAL_SHIELD 1 15 2 70))))) = 2
   \<and> max (1::real) 1 = 1"
  by (simp add: applyOrbitalShield_def)

section \<open>Generated weapons\<close>

lemma mathRound_gt: "r - 1 / 2 < mathRound r"
  unfolding mathRound_def by linarith

lemma ensureBaseStats_damage:
  "Weapon.damage (ensureBaseStats W ns)
     = max (Weapon.damage ns) (mathRound (Weapon.damage W * (11 / 10)))"
  by (simp add: ensureBaseStats_def Let_def)

lemma finalWeapon_damage: "Weapon.damage (finalWeapon W ns pre suf r) = Weapon.damage ns"
  by (simp add: finalWeapon_def Let_def)

lemma finalWeapon_quality:
  "quality (finalWeapon W ns pre suf r) = max (weaponQuality ns) (quality W + 10)"
  by (simp add: finalWeapon_def Let_def)

lemma generateUpgradedWeapon_SomeD:
  assumes "generateUpgradedWeapon W wv rnd = Some w'"
  shows "\<exists>ns pre suf r. w' = finalWeapon W (ensureBaseStats W ns) pre suf r"
  using assms
  by (auto simp: generateUpgradedWeapon_def Let_def split: prod.splits option.splits)

text \<open>
  A run of the generator on ``Triple Shot'' at wave 1 in which every random value is 0.99:
  each of the five stat points falls through to the shotgun's bullet-count branch.
\<close>

lemma tripleShot_statPoints:
  "applyStatPoints 5 1 (\<lambda>_. 99 / 100) 0 tripleShot = (tripleShot\<lparr>bulletCount := Some 8\<rparr>, 10)"
  by (simp add: applyStatPoint_def tripleShot_def eval_nat_numeral
      orDefault_def randomInRange_def mathFloor_def)

lemma tripleShot_names:
  "pickRandom WEAPON_PREFIXES (99 / 100) = Some ''Phase-Shift''"
  "pickRandom WEAPON_SUFFIXES (99 / 100) = Some ''Striker''"
  by (simp_all add: pickRandom_def WEAPON_PREFIXES_def WEAPON_SUFFIXES_def)

lemma tripleShot_generated:
  "generateUpgradedWeapon tripleShot 1 (\<lambda>_. 99 / 100)
     = Some (finalWeapon tripleShot (ensureBaseStats tripleShot (tripleShot\<lparr>bulletCount := Some 8\<rparr>))
               ''Phase-Shift'' ''Striker'' (99 / 100))"
proof -
  have n: "nat (5 + \<lfloor>1 / 3 :: real\<rfloor>) = 5" by simp
  show ?thesis
    unfolding generateUpgradedWeapon_def Let_def n tripleShot_statPoints prod.case tripleShot_names
    by simp
qed

lemma tripleShot_generated_damage:
  "map_option Weapon.damage (generateUpgradedWeapon tripleShot 1 (\<lambda>_. 99 / 100)) = Some 13"
proof -
  have "Weapon.damage (tripleShot\<lparr>bulletCount := Some 8\<rparr>) = 12"
    by (simp add: tripleShot_def)
  moreover have "mathRound (Weapon.damage tripleShot * (11 / 10)) = 13"
    by (simp add: tripleShot_def mathRound_def)
  ultimately show ?thesis
    unfolding tripleShot_generated option.map finalWeapon_damage ensureBaseStats_damage
    by simp
qed

text \<open>
  What the two failsafes give for every wave and every outcome of the random rolls: the
  damage is at least \<^verbatim>\<open>Math.round(currentWeapon.damage * 1.1)\<close>, and the quality is at
  least \<^verbatim>\<open>currentWeapon.quality + 10\<close>.
\<close>

lemma generateUpgradedWeapon_failsafes:
  assumes "generateUpgradedWeapon W wv rnd = Some w'"
  shows "mathRound (Weapon.damage W * (11 / 10)) \<le> Weapon.damage w'
         \<and> quality W + 10 \<le> quality w'"
proof -
  obtain ns pre suf r where w: "w' = finalWeapon W (ensureBaseStats W ns) pre suf r"
    using generateUpgradedWeapon_SomeD[OF assms] by blast
  have d: "mathRound (Weapon.damage W * (11 / 10)) \<le> Weapon.damage w'"
    by (simp add: w finalWeapon_damage ensureBaseStats_damage)
  have q: "quality W + 10 \<le> quality w'"
    by (simp add: w finalWeapon_quality)
  show ?thesis using d q by simp
qed

text \<open>
  C1.  The code at an input where it misses the damage bound of the claim.  The baseline is
  the predefined Triple Shot (damage 12), the wave is 1, and every \<^verbatim>\<open>Math.random()\<close>
  gives 0.99, so that none of the five stat points upgrades the damage.  The failsafe
  \<^verbatim>\<open>Math.max(newStats.damage, Math.round(currentWeapon.damage * 1.1))\<close> then gives
  \<open>max 12 (Math.round 13.2) = 13\<close>: the generated weapon has damage 13, below
  \<open>1.1 * 12 = 13.2\<close>.  The rounding of the bound is what loses the guarantee.
\<close>

theorem generated_damage_below_110_percent:
  "map_option Weapon.damage (generateUpgradedWeapon tripleShot 1 (\<lambda>_. 99 / 100)) = Some 13
   \<and> (13::real) < 11 / 10 * Weapon.damage tripleShot"
proof
  show "map_option Weapon.damage (generateUpgradedWeapon tripleShot 1 (\<lambda>_. 99 / 100)) = Some 13"
    by (rule tripleShot_generated_damage)
  show "(13::real) < 11 / 10 * Weapon.damage tripleShot"
    by (simp add: tripleShot_def)
qed


section \<open>Boss phases\<close>

lemma bossPhaseTransition_cases:
  "bossPhaseTransition now (m, ai) =
     (if orDefault (phase m) 1 = 1 \<and> healthPercentBelow m (75 / 100)
      then (m\<lparr>phase := Some 2, invincibleUntil := Some (now + 2000)\<rparr>,
            ai\<lparr>stype := hesitate, lastActionTime := now\<rparr>)
      else if orDefault (phase m) 1 = 2 \<and> healthPercentBelow m (4 / 10)
      then (m\<lparr>phase := Some 3, invincibleUntil := Some (now + 2000)\<rparr>,
            ai\<lparr>stype := hesitate, lastActionTime := now\<rparr>)
      else (m, ai))"
  by (simp add: bossPhaseTransition_def Let_def)

lemma bossDashOrChoose_fst:
  "phase (fst (bossDashOrChoose now ar t obs (m, ai))) = phase m"
  "invincibleUntil (fst (bossDashOrChoose now ar t obs (m, ai))) = invincibleUntil m"
  by (simp_all add: bossDashOrChoose_def Let_def)

lemma handleBossAI_unfold:
  "handleBossAI m pl obs now dr ar =
     (let ai0 = (case aiState m of None \<Rightarrow> freshBossState now | Some a \<Rightarrow> a);
          ma1 = bossPhaseTransition now (m, ai0);
          t = now - lastActionTime (snd ma1);
          ai2 = (if now - orDefault (lastDialogueTime (snd ma1)) 0 > 10000 \<and> dr < 2 / 10
                 then (snd ma1)\<lparr>lastDialogueTime := Some now\<rparr> else snd ma1);
          ma3 = bossDashOrChoose now ar t obs (fst ma1, ai2);
          ai4 = bossAction now t (position pl) (snd ma3);
          ai5 = (if now - orDefault (lastMinionSpawnTime ai4) 0 > 8000 - orDefault (phase (fst ma3)) 1 * 1000
                 then ai4\<lparr>lastMinionSpawnTime := Some now\<rparr> else ai4)
      in (fst ma3)\<lparr>aiState := Some ai5\<rparr>)"
  by (simp add: handleBossAI_def Let_def split: prod.split)

lemma handleBossAI_phase:
  "phase (handleBossAI m pl obs now dr ar)
     = phase (fst (bossPhaseTransition now (m, case aiState m of None \<Rightarrow> freshBossState now | Some a \<Rightarrow> a)))"
  "invincibleUntil (handleBossAI m pl obs now dr ar)
     = invincibleUntil (fst (bossPhaseTransition now (m, case aiState m of None \<Rightarrow> freshBossState now | Some a \<Rightarrow> a)))"
  unfolding handleBossAI_unfold Let_def
  by (cases "bossPhaseTransition now (m, case aiState m of None \<Rightarrow> freshBossState now | Some a \<Rightarrow> a)";
      simp add: bossDashOrChoose_fst)+


lemma bossDashOrChoose_stays_hesitate:
  "stype ai = hesitate \<Longrightarrow> \<not> t > 2000 \<Longrightarrow>
     stype (snd (bossDashOrChoose now ar t obs (m, ai))) = hesitate"
  by (simp add: bossDashOrChoose_def Let_def)

lemma bossAction_stays_hesitate:
  "stype ai = hesitate \<Longrightarrow> stype (bossAction now t pp ai) = hesitate"
  by (simp add: bossAction_def)

lemma handleBossAI_hesitate_after_transition:
  assumes "phase (handleBossAI m pl obs now dr ar) \<noteq> phase m"
  shows "map_option stype (aiState (handleBossAI m pl obs now dr ar)) = Some hesitate"
proof -
  let ?ai0 = "case aiState m of None \<Rightarrow> freshBossState now | Some a \<Rightarrow> a"
  define ma1 where "ma1 = bossPhaseTransition now (m, ?ai0)"
  define t where "t = now - lastActionTime (snd ma1)"
  define ai2 where "ai2 = (if now - orDefault (lastDialogueTime (snd ma1)) 0 > 10000 \<and> dr < 2 / 10
                 then (snd ma1)\<lparr>lastDialogueTime := Some now\<rparr> else snd ma1)"
  define ma3 where "ma3 = bossDashOrChoose now ar t obs (fst ma1, ai2)"
  define ai4 where "ai4 = bossAction now t (position pl) (snd ma3)"
  define ai5 where "ai5 = (if now - orDefault (lastMinionSpawnTime ai4) 0
                               > 8000 - orDefault (phase (fst ma3)) 1 * 1000
                           then ai4\<lparr>lastMinionSpawnTime := Some now\<rparr> else ai4)"
  have res: "handleBossAI m pl obs now dr ar = (fst ma3)\<lparr>aiState := Some ai5\<rparr>"
    unfolding handleBossAI_unfold Let_def ai5_def ai4_def ma3_def ai2_def t_def ma1_def ..
  have ch: "phase (fst ma1) \<noteq> phase m"
    using assms by (simp add: handleBossAI_phase ma1_def)
  then have tr: "stype (snd ma1) = hesitate" "lastActionTime (snd ma1) = now"
    by (auto simp: ma1_def bossPhaseTransition_cases split: if_splits)
  have "stype ai2 = hesitate" using tr(1) by (simp add: ai2_def)
  moreover have "\<not> t > 2000" using tr(2) by (simp add: t_def)
  ultimately have "stype (snd ma3) = hesitate"
    unfolding ma3_def by (rule bossDashOrChoose_stays_hesitate)
  then have "stype ai4 = hesitate"
    unfolding ai4_def by (rule bossAction_stays_hesitate)
  then have "stype ai5 = hesitate" by (simp add: ai5_def)
  then show ?thesis by (simp add: res)
qed

lemma healthPercentBelow_pos:
  "0 < maxHealth m \<Longrightarrow> healthPercentBelow m c \<longleftrightarrow> health m < c * maxHealth m"
  by (simp add: healthPercentBelow_def pos_divide_less_eq)

text \<open>
  What one call of \<^verbatim>\<open>handleBossAI\<close> does establish.  It never lowers the boss's phase
  (an undefined or zero phase counts as 1, as \<^verbatim>\<open>phase || 1\<close> reads it).  When the call
  changes the phase, it goes from 1 to 2 with \<^verbatim>\<open>healthPercent < 0.75\<close> or from 2 to 3
  with \<^verbatim>\<open>healthPercent < 0.4\<close> (for a positive \<open>maxHealth\<close>: health below 75\% or
  40\% of it), the field \<^verbatim>\<open>invincibleUntil\<close> is set to \<open>now + 2000\<close>, and the
  \<^verbatim>\<open>aiState\<close> it returns is \<^verbatim>\<open>hesitate\<close>.
\<close>

lemma handleBossAI_phase_step:
  "orDefault (phase m) 1 \<le> orDefault (phase (handleBossAI m pl obs now dr ar)) 1
   \<and> (phase (handleBossAI m pl obs now dr ar) \<noteq> phase m \<longrightarrow>
        ((orDefault (phase m) 1 = 1 \<and> healthPercentBelow m (75 / 100)
            \<and> (0 < maxHealth m \<longrightarrow> health m < 75 / 100 * maxHealth m)
            \<and> phase (handleBossAI m pl obs now dr ar) = Some 2)
         \<or> (orDefault (phase m) 1 = 2 \<and> healthPercentBelow m (4 / 10)
            \<and> (0 < maxHealth m \<longrightarrow> health m < 4 / 10 * maxHealth m)
            \<and> phase (handleBossAI m pl obs now dr ar) = Some 3))
        \<and> invincibleUntil (handleBossAI m pl obs now dr ar) = Some (now + 2000)
        \<and> map_option stype (aiState (handleBossAI m pl obs now dr ar)) = Some hesitate)"
proof (intro conjI impI)
  let ?ai0 = "case aiState m of None \<Rightarrow> freshBossState now | Some a \<Rightarrow> a"
  show "orDefault (phase m) 1 \<le> orDefault (phase (handleBossAI m pl obs now dr ar)) 1"
    by (simp add: handleBossAI_phase bossPhaseTransition_cases orDefault_def)
  assume ch: "phase (handleBossAI m pl obs now dr ar) \<noteq> phase m"
  show "map_option stype (aiState (handleBossAI m pl obs now dr ar)) = Some hesitate"
    by (rule handleBossAI_hesitate_after_transition[OF ch])
  show "invincibleUntil (handleBossAI m pl obs now dr ar) = Some (now + 2000)"
    using ch by (auto simp: handleBossAI_phase bossPhaseTransition_cases split: if_splits)
  show "(orDefault (phase m) 1 = 1 \<and> healthPercentBelow m (75 / 100)
            \<and> (0 < maxHealth m \<longrightarrow> health m < 75 / 100 * maxHealth m)
            \<and> phase (handleBossAI m pl obs now dr ar) = Some 2)
         \<or> (orDefault (phase m) 1 = 2 \<and> healthPercentBelow m (4 / 10)
            \<and> (0 < maxHealth m \<longrightarrow> health m < 4 / 10 * maxHealth m)
            \<and> phase (handleBossAI m pl obs now dr ar) = Some 3)"
    using ch healthPercentBelow_pos[of m]
    by (auto simp: handleBossAI_phase bossPhaseTransition_cases split: if_splits)
qed

lemma hurtBoss_facts:
  "phase hurtBoss = Some 1" "health hurtBoss = 700" "maxHealth hurtBoss = 950"
  by (simp_all add: hurtBoss_def spawnBoss_def normalDifficulty_def waveHealthBonus_def)

lemma shieldedBoss_eval:
  "shieldedBoss
     = hurtBoss\<lparr>invincibleUntil := Some 7000, phase := Some 2,
                 aiState := Some ((freshBossState 0)\<lparr>stype := hesitate, lastActionTime := 5000\<rparr>)\<rparr>"
  by (simp add: shieldedBoss_def handleBossAI_def Let_def bossPhaseTransition_def bossDashOrChoose_def
      bossAction_def hurtBoss_def spawnBoss_def normalDifficulty_def waveHealthBonus_def
      healthPercentBelow_def orDefault_def freshBossState_def)

lemma bossBullet_hit:
  "processBullet 5001 tripleShot (1 / 2) bossBullet ([], [], [shieldedBoss])
     = (False, bossBullet\<lparr>position := \<lparr>x = 500, y = 520\<rparr>, piercingLeft := 0\<rparr>,
        [], [], [shieldedBoss\<lparr>health := 675\<rparr>])"
  unfolding shieldedBoss_eval
  by (simp add: processBullet_def Let_def handleWrapAround_def WORLD_WIDTH_def WORLD_HEIGHT_def
      hurtBoss_def spawnBoss_def normalDifficulty_def waveHealthBonus_def BOSS_SIZE_def
      tripleShot_def BULLET_LIFESPAN_def BULLET_SIZE_def bossBullet_def
      checkCollision_def truthy_def orDefault_def)

text \<open>
  C7.  The code at an input where the transition does not make the boss invincible.  A
  wave-1 boss with 700 of its 950 health is in phase 1; the call of \<^verbatim>\<open>handleBossAI\<close> at
  time 5000 takes it to phase 2 and sets \<^verbatim>\<open>invincibleUntil\<close> to 7000.  At time 5001,
  inside the 2000 ms, a player bullet of damage 25 reaches the boss: the bullet loop takes
  the boss's health from 700 to 675.  The loop tests \<^verbatim>\<open>diesAt\<close> and the overlap only; no
  code that damages a monster reads the monster's \<^verbatim>\<open>invincibleUntil\<close>.
\<close>

theorem boss_hit_during_invincibility:
  "phase hurtBoss = Some 1
   \<and> phase shieldedBoss = Some 2
   \<and> invincibleUntil shieldedBoss = Some 7000
   \<and> health shieldedBoss = 700
   \<and> (5001::real) < 7000
   \<and> map health (snd (snd (snd (snd (processBullet 5001 tripleShot (1 / 2) bossBullet
                                        ([], [], [shieldedBoss])))))) = [675]"
  by (simp add: bossBullet_hit) (simp add: shieldedBoss_eval hurtBoss_def spawnBoss_def)

section \<open>Explosive barrels: the batch of a tick\<close>

lemma mapHas_Nil: "\<not> mapHas k []"
  by (simp add: mapHas_def)

lemma mapHas_mapSet: "mapHas k (mapSet k' v kvs) \<longleftrightarrow> k = k' \<or> mapHas k kvs"
  by (induction kvs) (auto simp: mapHas_def)

lemma mapHas_detectTrigger:
  "mapHas k (detectTrigger pl mons acc b)
     \<longleftrightarrow> mapHas k acc \<or> (ident b = k \<and> barrelTriggered pl mons b)"
  by (auto simp: detectTrigger_def barrelTriggered_def mapHas_mapSet)

lemma mapHas_detect_all:
  "mapHas k (foldl (detectTrigger pl mons) acc bs)
     \<longleftrightarrow> mapHas k acc \<or> list_ex (\<lambda>b. ident b = k \<and> barrelTriggered pl mons b) bs"
  by (induction bs arbitrary: acc) (auto simp: mapHas_detectTrigger)

lemma updatedBarrels_processExplosiveBarrels:
  "updatedBarrels (fst (processExplosiveBarrels now pdt st))
     = filter (\<lambda>b. \<not> mapHas (ident b)
                       (foldl (detectTrigger (player st) (monsters st)) [] (explosiveBarrels st)))
         (explosiveBarrels st)"
  by (simp add: processExplosiveBarrels_def Let_def split: prod.split)

lemma explosiveBarrels_barrelPhase:
  "explosiveBarrels (barrelPhase now pdt st)
     = updatedBarrels (fst (processExplosiveBarrels now pdt st))"
  by (simp add: barrelPhase_def split: prod.split)

lemma barrelPhase_barrels:
  "explosiveBarrels (barrelPhase now pdt st)
     = filter (\<lambda>b. \<not> list_ex (\<lambda>b'. ident b' = ident b
                                    \<and> barrelTriggered (player st) (monsters st) b')
                          (explosiveBarrels st))
         (explosiveBarrels st)"
  by (simp add: explosiveBarrels_barrelPhase updatedBarrels_processExplosiveBarrels
      mapHas_detect_all mapHas_Nil)

lemma chain_triggers:
  "barrelTriggered initialPlayer [] barrelA" "\<not> barrelTriggered initialPlayer [] barrelB"
  by (simp_all add: barrelTriggered_def barrelA_def barrelB_def initialPlayer_def
      checkCollision_def WORLD_WIDTH_def WORLD_HEIGHT_def PLAYER_SIZE_def EXPLOSIVE_BARREL_SIZE_def)

lemma chain_idents: "ident barrelA = ''A''" "ident barrelB = ''B''"
  by (simp_all add: barrelA_def barrelB_def)

lemma chain_start:
  "player chainState = initialPlayer" "monsters chainState = []"
  "explosiveBarrels chainState = [barrelA, barrelB]"
  by (simp_all add: chainState_def initialState_def)

lemma chain_first_tick: "explosiveBarrels (barrelPhase 1000 1 chainState) = [barrelB]"
  by (simp add: barrelPhase_barrels chain_start chain_triggers chain_idents)

lemma chain_blast: "inBlast (barrelExplosion barrelA) barrelB"
  by (simp add: inBlast_def barrelExplosion_def barrelA_def barrelB_def
      EXPLOSIVE_BARREL_SIZE_def power2_eq_square)

lemma chain_after:
  "player (barrelPhase 1000 1 chainState) = initialPlayer"
  "monsters (barrelPhase 1000 1 chainState) = []"
  by (simp_all add: barrelPhase_def processExplosiveBarrels_def Let_def chainState_def initialState_def
      detectTrigger_def mapHas_def explode_def inBlast_def
      barrelA_def barrelB_def checkCollision_def initialPlayer_def WORLD_WIDTH_def WORLD_HEIGHT_def
      PLAYER_SIZE_def EXPLOSIVE_BARREL_SIZE_def barrelExplosion_def power2_eq_square)

lemma chain_second_tick:
  "explosiveBarrels (barrelPhase 1017 1 (barrelPhase 1000 1 chainState)) = [barrelB]"
  by (simp add: barrelPhase_barrels[of 1017] chain_after chain_first_tick chain_triggers)

lemma mapSet_fresh: "k \<notin> fst ` set kvs \<Longrightarrow> mapSet k v kvs = kvs @ [(k, v)]"
  by (induction kvs) auto

lemma mapHas_iff: "mapHas k kvs \<longleftrightarrow> k \<in> fst ` set kvs"
  by (auto simp: mapHas_def list_ex_iff)

lemma detectTrigger_fresh:
  "ident b \<notin> fst ` set acc \<Longrightarrow>
     detectTrigger pl mons acc b
       = (if barrelTriggered pl mons b then acc @ [(ident b, barrelExplosion b)] else acc)"
  by (auto simp: detectTrigger_def barrelTriggered_def mapSet_fresh mapHas_iff)

lemma detect_all_distinct:
  "distinct (map ident bs) \<Longrightarrow> fst ` set acc \<inter> ident ` set bs = {} \<Longrightarrow>
     foldl (detectTrigger pl mons) acc bs
       = acc @ map (\<lambda>b. (ident b, barrelExplosion b)) (filter (barrelTriggered pl mons) bs)"
proof (induction bs arbitrary: acc)
  case Nil
  show ?case by simp
next
  case (Cons b bs)
  have fresh: "ident b \<notin> fst ` set acc" using Cons.prems(2) by auto
  have d: "distinct (map ident bs)" and nb: "ident b \<notin> ident ` set bs"
    using Cons.prems(1) by auto
  show ?case
  proof (cases "barrelTriggered pl mons b")
    case True
    have "fst ` set (acc @ [(ident b, barrelExplosion b)]) \<inter> ident ` set bs = {}"
      using Cons.prems(2) nb by auto
    from Cons.IH[OF d this] show ?thesis
      by (simp add: detectTrigger_fresh[OF fresh] True)
  next
    case False
    have "fst ` set acc \<inter> ident ` set bs = {}" using Cons.prems(2) by auto
    from Cons.IH[OF d this] show ?thesis
      by (simp add: detectTrigger_fresh[OF fresh] False)
  qed
qed

lemma explosions_takeDamage: "explosions (takeDamage now pdt amount src st) = explosions st"
  by (simp add: takeDamage_def Let_def endGameIfDead_def noteEncounter_def
      split: option.split DamageSource.split)

lemma explode_all_explosions:
  "newExplosions (fst (foldl (explode now pdt) (res, st) exs))
     = newExplosions res
       @ map (\<lambda>ex. \<lparr>eposition = xposition ex, exsize = \<lparr>width = xsize ex, height = xsize ex\<rparr>,
                      ecreatedAt = now, edamage = xdamage ex\<rparr>) exs
   \<and> explosions (snd (foldl (explode now pdt) (res, st) exs)) = explosions st"
  by (induction exs arbitrary: res st) (simp_all add: explode_def explosions_takeDamage)

lemma explosions_barrelPhase:
  "explosions (barrelPhase now pdt st)
     = explosions st
       @ map (\<lambda>ex. \<lparr>eposition = xposition ex, exsize = \<lparr>width = xsize ex, height = xsize ex\<rparr>,
                      ecreatedAt = now, edamage = xdamage ex\<rparr>)
           (map snd (foldl (detectTrigger (player st) (monsters st)) [] (explosiveBarrels st)))"
proof -
  let ?res0 = "\<lparr>updatedBarrels = explosiveBarrels st, updatedObstacles = obstacles st,
        updatedMonsters = monsters st, newExplosions = [], newDamageNumbers = []\<rparr>"
  let ?exs = "map snd (foldl (detectTrigger (player st) (monsters st)) [] (explosiveBarrels st))"
  obtain r s' where rs: "foldl (explode now pdt) (?res0, st) ?exs = (r, s')"
    by (cases "foldl (explode now pdt) (?res0, st) ?exs")
  have "newExplosions r
          = map (\<lambda>ex. \<lparr>eposition = xposition ex, exsize = \<lparr>width = xsize ex, height = xsize ex\<rparr>,
                      ecreatedAt = now, edamage = xdamage ex\<rparr>) ?exs"
       "explosions s' = explosions st"
    using explode_all_explosions[of now pdt ?res0 st ?exs] by (simp_all add: rs)
  then show ?thesis
    by (simp add: barrelPhase_def processExplosiveBarrels_def Let_def rs)
qed

lemma filter_distinct_ident:
  "distinct (map ident bs) \<Longrightarrow>
   filter (\<lambda>b. \<not> list_ex (\<lambda>b'. ident b' = ident b \<and> P b') bs) bs = filter (\<lambda>b. \<not> P b) bs"
  by (rule filter_cong) (auto simp: list_ex_iff distinct_map inj_on_def)

text \<open>
  C5, as the code has it.  With unique barrel ids, the barrel phase of a tick detonates in
  one batch every barrel that meets a trigger condition at the start of the phase (health
  at or below 0, overlap with the player, overlap with a monster that is not dying): each
  of them yields one explosion in that phase, and all of them leave the frame's barrel list
  together.  The barrels that met no trigger condition are left as they were, their health
  unchanged by the batch's explosions: a blast does not damage barrels.
\<close>

theorem barrels_detonate_in_one_batch:
  assumes "distinct (map ident (explosiveBarrels st))"
  shows "explosiveBarrels (barrelPhase now pdt st)
           = filter (\<lambda>b. \<not> barrelTriggered (player st) (monsters st) b) (explosiveBarrels st)
         \<and> explosions (barrelPhase now pdt st)
           = explosions st
             @ map (\<lambda>b. \<lparr>eposition = position b, exsize = \<lparr>width = 150, height = 150\<rparr>,
                          ecreatedAt = now, edamage = 100\<rparr>)
                 (filter (barrelTriggered (player st) (monsters st)) (explosiveBarrels st))"
proof
  show "explosiveBarrels (barrelPhase now pdt st)
           = filter (\<lambda>b. \<not> barrelTriggered (player st) (monsters st) b) (explosiveBarrels st)"
    by (simp add: barrelPhase_barrels filter_distinct_ident[OF assms])
  have "foldl (detectTrigger (player st) (monsters st)) [] (explosiveBarrels st)
          = map (\<lambda>b. (ident b, barrelExplosion b))
              (filter (barrelTriggered (player st) (monsters st)) (explosiveBarrels st))"
    using detect_all_distinct[OF assms, of "[]"] by simp
  then show "explosions (barrelPhase now pdt st)
           = explosions st
             @ map (\<lambda>b. \<lparr>eposition = position b, exsize = \<lparr>width = 150, height = 150\<rparr>,
                          ecreatedAt = now, edamage = 100\<rparr>)
                 (filter (barrelTriggered (player st) (monsters st)) (explosiveBarrels st))"
    by (simp add: explosions_barrelPhase barrelExplosion_def comp_def)
qed

theorem barrels_detonate_in_one_batch_witness:
  "distinct (map ident (explosiveBarrels chainState))
   \<and> barrelTriggered (player chainState) (monsters chainState) barrelA
   \<and> explosiveBarrels (barrelPhase 1000 1 chainState) = [barrelB]
   \<and> explosions (barrelPhase 1000 1 chainState)
       = [\<lparr>eposition = \<lparr>x = 100, y = 100\<rparr>, exsize = \<lparr>width = 150, height = 150\<rparr>,
           ecreatedAt = 1000, edamage = 100\<rparr>]"
  using barrels_detonate_in_one_batch [of chainState 1000 1]
  by (simp add: chain_start chain_triggers chain_idents) (simp add: chainState_def initialState_def barrelA_def)

text \<open>
  The chain of the spec does not happen.  Barrel A (health 0) detonates; barrel B stands
  50 px beside it, inside A's blast radius of 75 px.  After the tick B still has its
  health of 10, and the next tick leaves it standing.
\<close>

theorem barrel_blast_spares_neighbour_counterexample:
  "inBlast (barrelExplosion barrelA) barrelB
   \<and> health barrelB = 10
   \<and> map health (explosiveBarrels (barrelPhase 1000 1 chainState)) = [10]
   \<and> explosiveBarrels (barrelPhase 1017 1 (barrelPhase 1000 1 chainState)) = [barrelB]"
  by (simp add: chain_blast chain_first_tick chain_second_tick) (simp add: barrelB_def)

section \<open>Player bullets: piercing\<close>

lemma pierceBullet_moved:
  "handleWrapAround (pierceBullet\<lparr>position := \<lparr>x = x (position pierceBullet) + x (velocity pierceBullet),
                                     y = y (position pierceBullet) + y (velocity pierceBullet)\<rparr>\<rparr>)
     = \<lparr>x = 105, y = 100\<rparr>"
  by (simp add: handleWrapAround_def pierceBullet_def WORLD_WIDTH_def WORLD_HEIGHT_def BULLET_SIZE_def)

lemma pierce_eval:
  "processBullet 1000 tripleShot (1 / 2) pierceBullet ([], [], [targetMonster])
     = (False, pierceBullet\<lparr>position := \<lparr>x = 105, y = 100\<rparr>, piercingLeft := 2\<rparr>,
        [], [], [targetMonster\<lparr>health := 75\<rparr>])"
  unfolding processBullet_def Let_def prod.case pierceBullet_moved
  by (simp add: pierceBullet_def targetMonster_def tripleShot_def BULLET_LIFESPAN_def BULLET_SIZE_def
      checkCollision_def truthy_def orDefault_def)

text \<open>
  C3.  The bullet loop at an input where the claim and the code part: a bullet with
  \<open>piercingLeft = 3\<close> meets a monster.  The hit takes 25 health and leaves
  \<open>piercingLeft = 2\<close>, above 0; the bullet is not pushed to \<^verbatim>\<open>newBullets\<close> all the
  same, because the last test of the loop also asks for \<^verbatim>\<open>!hitSomething\<close>.
\<close>

theorem piercing_bullet_retired_on_first_hit:
  "processBullets 1000 tripleShot (\<lambda>_. 1 / 2) 0 [pierceBullet] ([], [], [targetMonster])
     = ([], [], [], [targetMonster\<lparr>health := 75\<rparr>])
   \<and> piercingLeft (fst (snd (processBullet 1000 tripleShot (1 / 2) pierceBullet
                                ([], [], [targetMonster])))) = 2"
  by (simp add: pierce_eval)

text \<open>What the loop does keep: a bullet within its lifespan that hit nothing, unchanged but for its position.\<close>

lemma hitFirst_none: "hitFirst P f xs = (xs', False) \<Longrightarrow> xs' = xs"
  by (induction xs arbitrary: xs') (auto split: if_splits prod.splits)

lemma processBullet_kept:
  assumes "processBullet now w roll b (obs, brls, mons) = (True, b', env')"
  shows "piercingLeft b' = piercingLeft b \<and> 0 < piercingLeft b
         \<and> \<not> now - createdAt b > BULLET_LIFESPAN
         \<and> env' = (obs, brls, mons)"
  using assms
  by (auto simp: processBullet_def Let_def split: if_splits prod.splits dest!: hitFirst_none)

section \<open>Health bounds\<close>






section \<open>Monster health and the wave counter at the end of a tick\<close>




lemma frameAfter_simps:
  "fnow (frameAfter now mons) = now"
  "monsters (fdraft (frameAfter now mons)) = mons"
  "player (fdraft (frameAfter now mons)) = initialPlayer"
  by (simp_all add: frameAfter_def initialState_def)

lemma initialPlayer_no_levelup: "\<not> xp initialPlayer \<ge> xpToNextLevel initialPlayer"
  by (simp add: initialPlayer_def)



lemma bossWaveNow_state:
  "bossWaveNow (st\<lparr>isGameOver := a, leaderboard := b, encounteredMonsters := c, monsterIntro := d\<rparr>) k m
     = bossWaveNow st k m"
  by (simp add: bossWaveNow_def bossWaveStarts_def waitingForBossClear_def killedThisWave_def)

lemma wave_finishFrame:
  "wave (finishFrame fr mods st) =
     (if xp (player (fdraft fr)) \<ge> xpToNextLevel (player (fdraft fr)) then wave st
      else if bossWaveNow st (newlyKilledMonsters (monsters (fdraft fr)))
                (cleanedMonsters (fnow fr) mods (monsters (fdraft fr)))
              \<and> bossKilled (newlyKilledMonsters (monsters (fdraft fr)))
      then wave st + 1 else wave st)"
  by (simp add: finishFrame_def Let_def bossWaveNow_state)

lemma wave_gameLoop:
  "wave (gameLoop mods st fr) = wave st
   \<or> (wave (gameLoop mods st fr) = wave st + 1
       \<and> bossKilled (newlyKilledMonsters (monsters (fdraft fr)))
       \<and> bossWaveNow st (newlyKilledMonsters (monsters (fdraft fr)))
            (cleanedMonsters (fnow fr) mods (monsters (fdraft fr))))"
  by (simp add: gameLoop_def wave_finishFrame)

lemma wave_runTicks: "wave st \<le> wave (runTicks mods st frs)"
proof (induction frs arbitrary: st)
  case Nil
  show ?case by (simp add: runTicks_def)
next
  case (Cons fr frs)
  have "wave st \<le> wave (gameLoop mods st fr)"
    using wave_gameLoop[of mods st fr] by auto
  also have "\<dots> \<le> wave (runTicks mods (gameLoop mods st fr) frs)"
    by (rule Cons.IH)
  finally show ?case by (simp add: runTicks_def)
qed

text \<open>
  C6.  Over any sequence of ticks the wave counter does not decrease; one tick leaves it as
  it is or adds exactly 1, and it adds 1 only when a boss is among the monsters killed in
  that tick and the tick's boss-wave flag is set.
\<close>

theorem wave_never_decreases:
  "wave st \<le> wave (runTicks mods st frs)
   \<and> (wave (gameLoop mods st fr) = wave st
      \<or> (wave (gameLoop mods st fr) = wave st + 1
          \<and> bossKilled (newlyKilledMonsters (monsters (fdraft fr)))
          \<and> bossWaveNow st (newlyKilledMonsters (monsters (fdraft fr)))
               (cleanedMonsters (fnow fr) mods (monsters (fdraft fr)))))"
  using wave_runTicks[of st mods frs] wave_gameLoop[of mods st fr] by blast

lemma boss_tick:
  "wave (gameLoop normalDifficulty (initialState\<lparr>isBossWave := True\<rparr>)
           (frameAfter 1000 [hurtBoss\<lparr>health := 0\<rparr>])) = 2"
proof -
  have k: "newlyKilledMonsters [hurtBoss\<lparr>health := 0\<rparr>] = [hurtBoss\<lparr>health := 0\<rparr>]"
    by (simp add: newlyKilledMonsters_def hurtBoss_def spawnBoss_def truthy_def)
  have b: "bossKilled [hurtBoss\<lparr>health := 0\<rparr>]"
    by (simp add: bossKilled_def hurtBoss_def spawnBoss_def)
  have w: "bossWaveNow (initialState\<lparr>isBossWave := True\<rparr>) ks ms" for ks ms
    by (simp add: bossWaveNow_def)
  have r: "\<not> isPaused (initialState\<lparr>isBossWave := True\<rparr>)"
     "\<not> isGameOver (initialState\<lparr>isBossWave := True\<rparr>)"
     "\<not> isLevelingUp (initialState\<lparr>isBossWave := True\<rparr>)"
     "wave (initialState\<lparr>isBossWave := True\<rparr>) = 1"
    by (simp_all add: initialState_def)
  show ?thesis
    by (simp add: gameLoop_def r wave_finishFrame frameAfter_simps initialPlayer_no_levelup k b w)
qed

theorem wave_never_decreases_witness:
  "bossKilled (newlyKilledMonsters (monsters (fdraft (frameAfter 1000 [hurtBoss\<lparr>health := 0\<rparr>]))))
   \<and> wave (initialState\<lparr>isBossWave := True\<rparr>) = 1
   \<and> wave (gameLoop normalDifficulty (initialState\<lparr>isBossWave := True\<rparr>)
              (frameAfter 1000 [hurtBoss\<lparr>health := 0\<rparr>])) = 2
   \<and> wave (initialState\<lparr>isBossWave := True\<rparr>)
        \<le> wave (runTicks normalDifficulty (initialState\<lparr>isBossWave := True\<rparr>)
                  [frameAfter 1000 [hurtBoss\<lparr>health := 0\<rparr>], frameAfter 1017 []])"
  using wave_never_decreases [of "initialState\<lparr>isBossWave := True\<rparr>" normalDifficulty
          "[frameAfter 1000 [hurtBoss\<lparr>health := 0\<rparr>], frameAfter 1017 []]"
          "frameAfter 1000 [hurtBoss\<lparr>health := 0\<rparr>]"]
  by (simp add: boss_tick) (simp add: initialState_def)

end
